theory Spec2Isabelle
  imports Complex_Main "HOL-Library.Sublist"
begin

section \<open>Audio-video merge worker (app.py)\<close>

text \<open>
  The worker is one Flask module. Its only stateful function is the \<open>/merge\<close> handler
  \<open>process_variant\<close>, which calls the operating system, the network and the external
  encoder. The embedding keeps the handler's control flow as it is written and makes
  the outside world explicit: every external call is appended to a trace of events, and
  its outcome is read from an environment record, so that the handler is a function of
  the request body and the environment.
\<close>

subsection \<open>Configuration\<close>

definition UPLOAD_FOLDER :: string where
  "UPLOAD_FOLDER = ''/tmp/downloads''"

definition TEMP_FOLDER :: string where
  "TEMP_FOLDER = ''/tmp/n8n_video_processing''"

text \<open>
  A variant configuration. The speeds are Python float literals; they are modelled by the
  rationals their decimal literals denote (rounding a decimal literal to the nearest double
  is monotone, so comparisons between such literals are the same in both readings).
\<close>

record variant_config =
  voice_id :: string
  speed :: rat
  filter_spec :: string

definition VARIANTS :: "(string \<times> variant_config) list" where
  "VARIANTS =
    [(''pablo'', \<lparr>voice_id = ''OhisAd2u8Q6qSA4xXAAT'', speed = 1, filter_spec = ''none''\<rparr>),
     (''josh'', \<lparr>voice_id = ''Rsz5u2Huh1hPlPr0oxRQ'', speed = 101 / 100,
        filter_spec = ''eq=contrast=1.02''\<rparr>),
     (''michael'', \<lparr>voice_id = ''dfpTJ8gngbfXIon7bId3'', speed = 99 / 100,
        filter_spec = ''eq=saturation=1.015''\<rparr>),
     (''ryan'', \<lparr>voice_id = ''4e32WqNVWRquDa1OcRYZ'', speed = 102 / 100,
        filter_spec = ''unsharp=5:5:1.5''\<rparr>),
     (''brad'', \<lparr>voice_id = ''f5HLTX707KIM4SzJYzSz'', speed = 98 / 100,
        filter_spec = ''eq=gamma=1.01''\<rparr>)]"

definition variant_names :: "string list" where
  "variant_names = map fst VARIANTS"

subsection \<open>Request bodies, exceptions, responses\<close>

text \<open>
  The value \<open>request.json\<close> yields: any parsed JSON document. A JSON object is the list
  of the items of the resulting dict (its keys are distinct).
\<close>

datatype pyval =
    PNone
  | PBool bool
  | PNum rat
  | PStr string
  | PList "pyval list"
  | PDict "(string \<times> pyval) list"

datatype exn = TypeError | KeyError | OSError

record success_record =
  variant :: string
  output_file :: string
  download_url :: string
  file_size :: nat
  timestamp :: string

text \<open>
  A response body is \<open>{'error': message}\<close> or the success record (whose \<open>status\<close> field
  is the constant \<open>'success'\<close>); a response is a body with its HTTP status.
\<close>

datatype body = Error string | Success success_record

type_synonym response = "body \<times> nat"

subsection \<open>The outside world\<close>

datatype fetch_outcome =
    ConnectionFailure
  | Timeout
  | HTTPError nat
  | WriteFailure
  | Fetched

datatype run_outcome =
    Completed int
  | TimeoutExpired
  | RunFailure

datatype event =
    Makedirs string
  | HttpGet pyval nat
  | OpenWrite string
  | Run "string list" nat
  | Exists string
  | Getsize string
  | Rmtree string

text \<open>
  The environment of one request. \<open>fetch url dest\<close> is what happens when \<open>url\<close> is
  requested and streamed to \<open>dest\<close>: \<open>requests.get\<close> raises (\<open>ConnectionFailure\<close>,
  \<open>Timeout\<close>), \<open>raise_for_status\<close> raises for the status received (\<open>HTTPError\<close>),
  opening or writing the file raises (\<open>WriteFailure\<close>), or the body is written.
  \<open>subprocess_run cmd timeout\<close> is the result of the child process: its return code,
  \<open>subprocess.TimeoutExpired\<close>, or another exception. Within one request every external
  call has distinct arguments, so outcomes keyed by the arguments lose no generality.
  The three formatting functions stand for Python's \<open>str\<close> of a float, of a value that is
  not a string, and of an exception.
\<close>

record env =
  request_host :: string
  now_isoformat :: string
  makedirs_raises :: "string \<Rightarrow> bool"
  fetch :: "pyval \<Rightarrow> string \<Rightarrow> fetch_outcome"
  subprocess_run :: "string list \<Rightarrow> nat \<Rightarrow> run_outcome"
  path_exists :: "string \<Rightarrow> bool"
  path_getsize :: "string \<Rightarrow> nat option"
  str_float :: "rat \<Rightarrow> string"
  str_value :: "pyval \<Rightarrow> string"
  str_exn :: "exn \<Rightarrow> string"

subsection \<open>Python primitives the handler uses\<close>

text \<open>\<open>posixpath.join\<close>: a component that starts with a slash discards what came before.\<close>

definition join2 :: "string \<Rightarrow> string \<Rightarrow> string" where
  "join2 path b =
     (if b \<noteq> [] \<and> hd b = CHR ''/'' then b
      else if path = [] \<or> last path = CHR ''/'' then path @ b
      else path @ ''/'' @ b)"

definition os_path_join :: "string \<Rightarrow> string list \<Rightarrow> string" where
  "os_path_join a p = foldl join2 a p"

fun is_substring :: "string \<Rightarrow> string \<Rightarrow> bool" where
  "is_substring xs [] = (xs = [])"
| "is_substring xs (y # ys) = (prefix xs (y # ys) \<or> is_substring xs ys)"

text \<open>\<open>field in data\<close> for a string \<open>field\<close>.\<close>

fun py_in :: "string \<Rightarrow> pyval \<Rightarrow> exn + bool" where
  "py_in field (PDict kvs) = Inr (field \<in> set (map fst kvs))"
| "py_in field (PList xs) = Inr (PStr field \<in> set xs)"
| "py_in field (PStr s) = Inr (is_substring field s)"
| "py_in field _ = Inl TypeError"

text \<open>\<open>all(field in data for field in required_fields)\<close>: stops at the first \<open>False\<close>.\<close>

fun all_in :: "string list \<Rightarrow> pyval \<Rightarrow> exn + bool" where
  "all_in [] data = Inr True"
| "all_in (field # rest) data =
     (case py_in field data of
        Inl e \<Rightarrow> Inl e
      | Inr False \<Rightarrow> Inr False
      | Inr True \<Rightarrow> all_in rest data)"

text \<open>\<open>data[key]\<close> for a string \<open>key\<close>.\<close>

fun py_getitem :: "pyval \<Rightarrow> string \<Rightarrow> exn + pyval" where
  "py_getitem (PDict kvs) key =
     (case map_of kvs key of None \<Rightarrow> Inl KeyError | Some v \<Rightarrow> Inr v)"
| "py_getitem _ key = Inl TypeError"

text \<open>
  \<open>variant_name in VARIANTS\<close>: the value is hashed first, and a list or a dict is
  unhashable (\<open>TypeError\<close>); the keys are strings, so only an equal string is a key.
\<close>

fun hashable :: "pyval \<Rightarrow> bool" where
  "hashable (PList xs) = False"
| "hashable (PDict kvs) = False"
| "hashable _ = True"

definition in_VARIANTS :: "pyval \<Rightarrow> exn + bool" where
  "in_VARIANTS v =
     (if \<not> hashable v then Inl TypeError else Inr (v \<in> PStr ` set variant_names))"

text \<open>The f-string rendering of a value.\<close>

definition py_str :: "env \<Rightarrow> pyval \<Rightarrow> string" where
  "py_str env v = (case v of PStr s \<Rightarrow> s | _ \<Rightarrow> str_value env v)"

subsection \<open>The stages\<close>

text \<open>
  Each stage returns its boolean result and the trace extended by the calls it made.
  Every stage catches all exceptions and returns \<open>False\<close> (logging is not modelled).
  For the three encoder stages the list \<open>cmd\<close> the function builds is a definition of
  its own, so that it can be named; the function runs it and tests the return code.
\<close>

definition download_file :: "env \<Rightarrow> event list \<Rightarrow> pyval \<Rightarrow> string \<Rightarrow> bool \<times> event list" where
  "download_file env tr url dest_path =
     (case fetch env url dest_path of
        ConnectionFailure \<Rightarrow> (False, tr @ [HttpGet url 300])
      | Timeout \<Rightarrow> (False, tr @ [HttpGet url 300])
      | HTTPError st \<Rightarrow> (False, tr @ [HttpGet url 300])
      | WriteFailure \<Rightarrow> (False, tr @ [HttpGet url 300, OpenWrite dest_path])
      | Fetched \<Rightarrow> (True, tr @ [HttpGet url 300, OpenWrite dest_path]))"

definition adjust_audio_speed_cmd :: "env \<Rightarrow> string \<Rightarrow> rat \<Rightarrow> string \<Rightarrow> string list" where
  "adjust_audio_speed_cmd env audio_path spd output_path =
     [''ffmpeg'', ''-i'', audio_path,
      ''-af'', ''atempo='' @ str_float env spd,
      ''-y'', output_path]"

definition adjust_audio_speed ::
    "env \<Rightarrow> event list \<Rightarrow> string \<Rightarrow> rat \<Rightarrow> string \<Rightarrow> bool \<times> event list" where
  "adjust_audio_speed env tr audio_path spd output_path =
     (let cmd = adjust_audio_speed_cmd env audio_path spd output_path in
      case subprocess_run env cmd 300 of
        Completed returncode \<Rightarrow> (if returncode \<noteq> 0 then False else True, tr @ [Run cmd 300])
      | TimeoutExpired \<Rightarrow> (False, tr @ [Run cmd 300])
      | RunFailure \<Rightarrow> (False, tr @ [Run cmd 300]))"

definition apply_video_filter_cmd :: "string \<Rightarrow> string \<Rightarrow> string \<Rightarrow> string list" where
  "apply_video_filter_cmd video_path fspec output_path =
     (if fspec = ''none'' then
        [''ffmpeg'', ''-i'', video_path,
         ''-c:v'', ''libx264'', ''-crf'', ''23'', ''-preset'', ''fast'',
         ''-y'', output_path]
      else
        [''ffmpeg'', ''-i'', video_path,
         ''-vf'', fspec,
         ''-c:v'', ''libx264'', ''-crf'', ''23'', ''-preset'', ''fast'',
         ''-y'', output_path])"

definition apply_video_filter ::
    "env \<Rightarrow> event list \<Rightarrow> string \<Rightarrow> string \<Rightarrow> string \<Rightarrow> bool \<times> event list" where
  "apply_video_filter env tr video_path fspec output_path =
     (let cmd = apply_video_filter_cmd video_path fspec output_path in
      case subprocess_run env cmd 600 of
        Completed returncode \<Rightarrow> (if returncode \<noteq> 0 then False else True, tr @ [Run cmd 600])
      | TimeoutExpired \<Rightarrow> (False, tr @ [Run cmd 600])
      | RunFailure \<Rightarrow> (False, tr @ [Run cmd 600]))"

definition merge_audio_video_cmd :: "string \<Rightarrow> string \<Rightarrow> string \<Rightarrow> string list" where
  "merge_audio_video_cmd video_path audio_path output_path =
     [''ffmpeg'',
      ''-i'', video_path,
      ''-i'', audio_path,
      ''-c:v'', ''copy'',
      ''-c:a'', ''aac'',
      ''-map'', ''0:v:0'',
      ''-map'', ''1:a:0'',
      ''-shortest'',
      ''-y'', output_path]"

definition merge_audio_video ::
    "env \<Rightarrow> event list \<Rightarrow> string \<Rightarrow> string \<Rightarrow> string \<Rightarrow> bool \<times> event list" where
  "merge_audio_video env tr video_path audio_path output_path =
     (let cmd = merge_audio_video_cmd video_path audio_path output_path in
      case subprocess_run env cmd 600 of
        Completed returncode \<Rightarrow> (if returncode \<noteq> 0 then False else True, tr @ [Run cmd 600])
      | TimeoutExpired \<Rightarrow> (False, tr @ [Run cmd 600])
      | RunFailure \<Rightarrow> (False, tr @ [Run cmd 600]))"

subsection \<open>The paths of a job\<close>

text \<open>
  The paths \<open>process_variant\<close> computes from \<open>workflow_id\<close> and \<open>variant_name\<close>
  (both strings at that point).
\<close>

definition work_dir :: "string \<Rightarrow> string \<Rightarrow> string" where
  "work_dir workflow_id variant_name = os_path_join TEMP_FOLDER [workflow_id, variant_name]"

definition video_file :: "string \<Rightarrow> string \<Rightarrow> string" where
  "video_file workflow_id variant_name =
     os_path_join (work_dir workflow_id variant_name) [''source_video.mp4'']"

definition audio_file :: "string \<Rightarrow> string \<Rightarrow> string" where
  "audio_file workflow_id variant_name =
     os_path_join (work_dir workflow_id variant_name) [''source_audio.mp3'']"

definition audio_speed_file :: "string \<Rightarrow> string \<Rightarrow> string" where
  "audio_speed_file workflow_id variant_name =
     os_path_join (work_dir workflow_id variant_name) [''audio_speed.mp3'']"

definition video_filtered_file :: "string \<Rightarrow> string \<Rightarrow> string" where
  "video_filtered_file workflow_id variant_name =
     os_path_join (work_dir workflow_id variant_name) [''video_filtered.mp4'']"

definition output_filename :: "string \<Rightarrow> string \<Rightarrow> string" where
  "output_filename workflow_id variant_name = workflow_id @ ''_'' @ variant_name @ ''.mp4''"

definition output_file_path :: "string \<Rightarrow> string \<Rightarrow> string" where
  "output_file_path workflow_id variant_name =
     os_path_join UPLOAD_FOLDER [output_filename workflow_id variant_name]"

subsection \<open>The handler of /merge\<close>

definition required_fields :: "string list" where
  "required_fields = [''video_url'', ''audio_url'', ''variant_name'', ''workflow_id'']"

text \<open>
  Lines 216 to 283 of \<open>process_variant\<close>: the job itself, once the request is validated.
  \<open>os.makedirs\<close> and \<open>os.path.getsize\<close> may raise; \<open>os.path.exists\<close> does not; what
  \<open>shutil.rmtree\<close> raises is swallowed, so its outcome is no parameter of the result.
\<close>

definition run_job ::
    "env \<Rightarrow> pyval \<Rightarrow> pyval \<Rightarrow> string \<Rightarrow> string \<Rightarrow> (exn + response) \<times> event list" where
  "run_job env video_url audio_url workflow_id variant_name =
     (let wd = work_dir workflow_id variant_name;
          out = output_file_path workflow_id variant_name
      in
      if makedirs_raises env wd then (Inl OSError, [Makedirs wd])
      else
      (case download_file env [Makedirs wd] video_url (video_file workflow_id variant_name) of
         (False, tr1) \<Rightarrow> (Inr (Error ''Failed to download video'', 400), tr1)
       | (True, tr1) \<Rightarrow>
      (case download_file env tr1 audio_url (audio_file workflow_id variant_name) of
         (False, tr2) \<Rightarrow> (Inr (Error ''Failed to download audio'', 400), tr2)
       | (True, tr2) \<Rightarrow>
      (case map_of VARIANTS variant_name of
         None \<Rightarrow> (Inl KeyError, tr2)
       | Some variant_config \<Rightarrow>
      (case adjust_audio_speed env tr2 (audio_file workflow_id variant_name)
              (speed variant_config) (audio_speed_file workflow_id variant_name) of
         (False, tr3) \<Rightarrow> (Inr (Error ''Failed to adjust audio speed'', 400), tr3)
       | (True, tr3) \<Rightarrow>
      (case apply_video_filter env tr3 (video_file workflow_id variant_name)
              (filter_spec variant_config) (video_filtered_file workflow_id variant_name) of
         (False, tr4) \<Rightarrow> (Inr (Error ''Failed to apply video filter'', 400), tr4)
       | (True, tr4) \<Rightarrow>
      (case merge_audio_video env tr4 (video_filtered_file workflow_id variant_name)
              (audio_speed_file workflow_id variant_name) out of
         (False, tr5) \<Rightarrow> (Inr (Error ''Failed to merge audio and video'', 400), tr5)
       | (True, tr5) \<Rightarrow>
      if \<not> path_exists env out then
        (Inr (Error ''Output file not created'', 400), tr5 @ [Exists out])
      else
      (case path_getsize env out of
         None \<Rightarrow> (Inl OSError, tr5 @ [Exists out, Getsize out])
       | Some fsize \<Rightarrow>
          (Inr (Success \<lparr>variant = variant_name,
                          output_file = out,
                          download_url = ''https://'' @ request_host env @ ''/download/''
                                          @ output_filename workflow_id variant_name,
                          file_size = fsize,
                          timestamp = now_isoformat env\<rparr>, 200),
           tr5 @ [Exists out, Getsize out, Rmtree wd])))))))))"

text \<open>
  Lines 201 to 214, then the job: the body of the handler's \<open>try\<close>. \<open>os.path.join\<close>
  raises \<open>TypeError\<close> for a \<open>workflow_id\<close> that is not a string.
\<close>

definition process_variant_try :: "env \<Rightarrow> pyval \<Rightarrow> (exn + response) \<times> event list" where
  "process_variant_try env data =
     (case all_in required_fields data of
        Inl e \<Rightarrow> (Inl e, [])
      | Inr False \<Rightarrow> (Inr (Error ''Missing required fields'', 400), [])
      | Inr True \<Rightarrow>
     (case py_getitem data ''video_url'' of Inl e \<Rightarrow> (Inl e, []) | Inr video_url \<Rightarrow>
     (case py_getitem data ''audio_url'' of Inl e \<Rightarrow> (Inl e, []) | Inr audio_url \<Rightarrow>
     (case py_getitem data ''variant_name'' of Inl e \<Rightarrow> (Inl e, []) | Inr variant_name \<Rightarrow>
     (case py_getitem data ''workflow_id'' of Inl e \<Rightarrow> (Inl e, []) | Inr workflow_id \<Rightarrow>
     (case in_VARIANTS variant_name of
        Inl e \<Rightarrow> (Inl e, [])
      | Inr False \<Rightarrow>
          (Inr (Error (''Unknown variant: '' @ py_str env variant_name), 400), [])
      | Inr True \<Rightarrow>
     (case workflow_id of
        PStr wid \<Rightarrow>
          (case variant_name of
             PStr vname \<Rightarrow> run_job env video_url audio_url wid vname
           | _ \<Rightarrow> (Inl TypeError, []))
      | _ \<Rightarrow> (Inl TypeError, []))))))))"

text \<open>
  The handler: the catch-all \<open>except Exception\<close> turns an exception into a 500.
  The model starts from the value \<open>request.json\<close> yields; a body that cannot be read
  as JSON raises inside the same \<open>try\<close> and ends in the same 500.
\<close>

definition process_variant :: "env \<Rightarrow> pyval \<Rightarrow> response \<times> event list" where
  "process_variant env data =
     (case process_variant_try env data of
        (Inl e, tr) \<Rightarrow> ((Error (str_exn env e), 500), tr)
      | (Inr r, tr) \<Rightarrow> (r, tr))"

subsection \<open>Reading an encoder command line\<close>



datatype ffarg = Opt string string | Flag string | Output string | Incomplete string



subsection \<open>The HTTP status of a response\<close>



subsection \<open>A concrete request and a concrete world\<close>

text \<open>
  A world in which every external call succeeds and the artifact has 1024 bytes, and the
  request of the handler's docstring; the examples below vary them field by field.
\<close>

definition env_ok :: env where
  "env_ok =
     \<lparr>request_host = ''worker.example'',
      now_isoformat = ''2024-01-01T00:00:00'',
      makedirs_raises = (\<lambda>p. False),
      fetch = (\<lambda>url dest. Fetched),
      subprocess_run = (\<lambda>cmd t. Completed 0),
      path_exists = (\<lambda>p. True),
      path_getsize = (\<lambda>p. Some 1024),
      str_float = (\<lambda>x. ''1.0''),
      str_value = (\<lambda>v. ''<value>''),
      str_exn = (\<lambda>e. ''<exception>'')\<rparr>"

definition request :: "pyval \<Rightarrow> pyval \<Rightarrow> pyval \<Rightarrow> pyval \<Rightarrow> pyval" where
  "request video_url audio_url variant_name workflow_id =
     PDict [(''video_url'', video_url), (''audio_url'', audio_url),
            (''variant_name'', variant_name), (''workflow_id'', workflow_id)]"

definition example_request :: pyval where
  "example_request =
     request (PStr ''https://media.example/v.mp4'') (PStr ''https://media.example/a.mp3'')
       (PStr ''pablo'') (PStr ''abc123'')"

text \<open>The request body is a dict that has the four required fields, with these values.\<close>

definition has_fields ::
    "(string \<times> pyval) list \<Rightarrow> pyval \<Rightarrow> pyval \<Rightarrow> pyval \<Rightarrow> pyval \<Rightarrow> bool" where
  "has_fields kvs video_url audio_url variant_name workflow_id =
     (map_of kvs ''video_url'' = Some video_url \<and>
      map_of kvs ''audio_url'' = Some audio_url \<and>
      map_of kvs ''variant_name'' = Some variant_name \<and>
      map_of kvs ''workflow_id'' = Some workflow_id)"

definition unknown_variant_request :: pyval where
  "unknown_variant_request =
     request (PStr ''https://media.example/v.mp4'') (PStr ''https://media.example/a.mp3'')
       (PStr ''not-a-real-variant'') (PStr ''abc123'')"

definition unhashable_variant_request :: pyval where
  "unhashable_variant_request =
     request (PStr ''https://media.example/v.mp4'') (PStr ''https://media.example/a.mp3'')
       (PList [PStr ''pablo'']) (PStr ''abc123'')"

text \<open>
  What it means, in terms of the outside world, that a stage of the job for
  \<open>workflow_id\<close> and \<open>variant_name\<close> succeeds: the encoder process the stage starts
  returns code 0.
\<close>

definition speed_stage_ok :: "env \<Rightarrow> string \<Rightarrow> string \<Rightarrow> bool" where
  "speed_stage_ok env workflow_id variant_name =
     (case map_of VARIANTS variant_name of
        None \<Rightarrow> False
      | Some cfg \<Rightarrow>
          subprocess_run env
            (adjust_audio_speed_cmd env (audio_file workflow_id variant_name) (speed cfg)
               (audio_speed_file workflow_id variant_name)) 300 = Completed 0)"

definition filter_stage_ok :: "env \<Rightarrow> string \<Rightarrow> string \<Rightarrow> bool" where
  "filter_stage_ok env workflow_id variant_name =
     (case map_of VARIANTS variant_name of
        None \<Rightarrow> False
      | Some cfg \<Rightarrow>
          subprocess_run env
            (apply_video_filter_cmd (video_file workflow_id variant_name) (filter_spec cfg)
               (video_filtered_file workflow_id variant_name)) 600 = Completed 0)"

definition merge_stage_ok :: "env \<Rightarrow> string \<Rightarrow> string \<Rightarrow> bool" where
  "merge_stage_ok env workflow_id variant_name =
     (subprocess_run env
        (merge_audio_video_cmd (video_filtered_file workflow_id variant_name)
           (audio_speed_file workflow_id variant_name)
           (output_file_path workflow_id variant_name)) 600 = Completed 0)"

definition downloads_ok :: "env \<Rightarrow> pyval \<Rightarrow> pyval \<Rightarrow> string \<Rightarrow> string \<Rightarrow> bool" where
  "downloads_ok env video_url audio_url workflow_id variant_name =
     (fetch env video_url (video_file workflow_id variant_name) = Fetched \<and>
      fetch env audio_url (audio_file workflow_id variant_name) = Fetched)"

text \<open>The messages of the handler's own 400 responses.\<close>

definition classified_message :: "env \<Rightarrow> string \<Rightarrow> bool" where
  "classified_message env m =
     (m = ''Missing required fields'' \<or>
      (\<exists>vn. m = ''Unknown variant: '' @ py_str env vn) \<or>
      m = ''Failed to download video'' \<or>
      m = ''Failed to download audio'' \<or>
      m = ''Failed to adjust audio speed'' \<or>
      m = ''Failed to apply video filter'' \<or>
      m = ''Failed to merge audio and video'' \<or>
      m = ''Output file not created'')"

subsection \<open>What a path names\<close>

text \<open>
  The directory or file an absolute path names. The path is the byte string the operating
  system receives; a file name is compared byte by byte. The name is the list of the
  components of the path, split at the slashes, with empty components and \<open>.\<close>
  dropped and \<open>..\<close> stepping up one level (symbolic links aside). Two directories
  overlap when one is the other or lies inside it.
\<close>

fun split_slash :: "string \<Rightarrow> string list" where
  "split_slash [] = [] # []"
| "split_slash (c # cs) =
     (if c = CHR ''/'' then [] # split_slash cs
      else (case split_slash cs of [] \<Rightarrow> [c] # [] | x # xs \<Rightarrow> (c # x) # xs))"

definition norm_step :: "string list \<Rightarrow> string \<Rightarrow> string list" where
  "norm_step acc c =
     (if c = [] \<or> c = ''.'' then acc else if c = ''..'' then butlast acc else acc @ [c])"

definition resolve :: "string \<Rightarrow> string list" where
  "resolve p = foldl norm_step [] (split_slash p)"

definition overlapping :: "string \<Rightarrow> string \<Rightarrow> bool" where
  "overlapping p q = (prefix (resolve p) (resolve q) \<or> prefix (resolve q) (resolve p))"

subsection \<open>Python strings and file names\<close>

text \<open>
  A Python string is a list of code points. What the operating system and the encoder
  receive for a path is its file-system encoding, \<open>os.fsencode\<close>: UTF-8 with the error
  handler \<open>surrogateescape\<close>, under which the lone surrogates U+DC80 to U+DCFF stand for
  the single bytes 0x80 to 0xFF and any other surrogate cannot be encoded
  (\<open>UnicodeEncodeError\<close>). A file is named by these bytes, so the paths of the handler
  model above are byte strings: the encodings of the strings Python computes. For ASCII
  strings, such as the field names, the catalog keys and the two folders, the encoding is
  the string itself, and no other string has an ASCII encoding, so the comparisons with
  field names and catalog keys are those of the Python strings.
\<close>

type_synonym pystr = "nat list"

definition utf8_surrogateescape :: "nat \<Rightarrow> nat list option" where
  "utf8_surrogateescape c =
     (if c < 128 then Some [c]
      else if c < 2048 then Some [192 + c div 64, 128 + c mod 64]
      else if 56448 \<le> c \<and> c \<le> 56575 then Some [c - 56320]
      else if 55296 \<le> c \<and> c \<le> 57343 then None
      else if c < 65536 then
        Some [224 + c div 4096, 128 + c div 64 mod 64, 128 + c mod 64]
      else if c < 1114112 then
        Some [240 + c div 262144, 128 + c div 4096 mod 64, 128 + c div 64 mod 64,
              128 + c mod 64]
      else None)"

fun fsencode :: "pystr \<Rightarrow> string option" where
  "fsencode [] = Some []"
| "fsencode (c # cs) =
     (case utf8_surrogateescape c of
        None \<Rightarrow> None
      | Some bs \<Rightarrow>
          (case fsencode cs of None \<Rightarrow> None | Some rest \<Rightarrow> Some (map char_of bs @ rest)))"

text \<open>A Unicode scalar value: a code point that is not a surrogate.\<close>

definition scalar :: "nat \<Rightarrow> bool" where
  "scalar c = (c < 1114112 \<and> \<not> (55296 \<le> c \<and> c \<le> 57343))"

text \<open>The code points of a byte string read as ASCII or Latin-1 text.\<close>

definition code_points :: "string \<Rightarrow> pystr" where
  "code_points s = map of_char s"

text \<open>
  The paths of lines 217 and 225 to 226 as Python computes them, on code points
  (47 is the slash): \<open>posixpath.join\<close> once more, the workspace and the output file of
  a workflow id and a catalog key.
\<close>

definition py_join2 :: "pystr \<Rightarrow> pystr \<Rightarrow> pystr" where
  "py_join2 path b =
     (if b \<noteq> [] \<and> hd b = 47 then b
      else if path = [] \<or> last path = 47 then path @ b
      else path @ [47] @ b)"

definition py_os_path_join :: "pystr \<Rightarrow> pystr list \<Rightarrow> pystr" where
  "py_os_path_join a p = foldl py_join2 a p"

definition py_work_dir :: "pystr \<Rightarrow> string \<Rightarrow> pystr" where
  "py_work_dir workflow_id variant_name =
     py_os_path_join (code_points TEMP_FOLDER) [workflow_id, code_points variant_name]"

definition py_output_file_path :: "pystr \<Rightarrow> string \<Rightarrow> pystr" where
  "py_output_file_path workflow_id variant_name =
     py_os_path_join (code_points UPLOAD_FOLDER)
       [workflow_id @ code_points ''_'' @ code_points variant_name @ code_points ''.mp4'']"

text \<open>Reading back the first code point of a UTF-8 byte string.\<close>

definition utf8_first :: "nat list \<Rightarrow> nat" where
  "utf8_first bs =
     (let b0 = hd bs; b1 = hd (tl bs); b2 = hd (tl (tl bs)); b3 = hd (tl (tl (tl bs)))
      in if b0 < 128 then b0
         else if b0 < 224 then (b0 - 192) * 64 + (b1 - 128)
         else if b0 < 240 then (b0 - 224) * 4096 + (b1 - 128) * 64 + (b2 - 128)
         else (b0 - 240) * 262144 + (b1 - 128) * 4096 + (b2 - 128) * 64 + (b3 - 128))"


section \<open>Properties of the handler\<close>

subsection \<open>The stages in terms of the outside world\<close>

lemma adjust_audio_speed_result:
  "adjust_audio_speed env tr a spd out =
     (subprocess_run env (adjust_audio_speed_cmd env a spd out) 300 = Completed 0,
      tr @ [Run (adjust_audio_speed_cmd env a spd out) 300])"
  by (simp add: adjust_audio_speed_def Let_def split: run_outcome.splits)

lemma apply_video_filter_result:
  "apply_video_filter env tr v f out =
     (subprocess_run env (apply_video_filter_cmd v f out) 600 = Completed 0,
      tr @ [Run (apply_video_filter_cmd v f out) 600])"
  by (simp add: apply_video_filter_def Let_def split: run_outcome.splits)

lemma merge_audio_video_result:
  "merge_audio_video env tr v a out =
     (subprocess_run env (merge_audio_video_cmd v a out) 600 = Completed 0,
      tr @ [Run (merge_audio_video_cmd v a out) 600])"
  by (simp add: merge_audio_video_def Let_def split: run_outcome.splits)

lemma download_file_result:
  "download_file env tr url dest =
     (fetch env url dest = Fetched,
      tr @ (if fetch env url dest = WriteFailure \<or> fetch env url dest = Fetched
            then [HttpGet url 300, OpenWrite dest] else [HttpGet url 300]))"
  by (simp add: download_file_def split: fetch_outcome.splits)

lemmas stage_results =
  download_file_result adjust_audio_speed_result apply_video_filter_result
  merge_audio_video_result

lemma all_in_required_fields:
  "all_in required_fields (PDict kvs) = Inr (\<forall>f \<in> set required_fields. map_of kvs f \<noteq> None)"
  by (simp add: required_fields_def map_of_eq_None_iff split: bool.splits)

lemma has_fields_request:
  "has_fields kvs vu au vn wid \<Longrightarrow> all_in required_fields (PDict kvs) = Inr True"
  unfolding all_in_required_fields by (simp add: required_fields_def has_fields_def)

text \<open>A request that passes validation runs the job.\<close>

lemma process_variant_try_valid:
  assumes "has_fields kvs vu au (PStr v) (PStr w)" and "v \<in> set variant_names"
  shows "process_variant_try env (PDict kvs) = run_job env vu au w v"
  using assms has_fields_request [OF assms(1)]
  by (simp add: process_variant_try_def has_fields_def in_VARIANTS_def)

lemma variant_names_map_of:
  "v \<in> set variant_names \<longleftrightarrow> (\<exists>cfg. map_of VARIANTS v = Some cfg)"
proof -
  have "v \<in> set variant_names \<longleftrightarrow> map_of VARIANTS v \<noteq> None"
    unfolding variant_names_def by (simp only: map_of_eq_None_iff set_map not_not)
  then show ?thesis by auto
qed


lemmas path_defs =
  work_dir_def video_file_def audio_file_def audio_speed_file_def video_filtered_file_def
  output_filename_def output_file_path_def os_path_join_def join2_def
  TEMP_FOLDER_def UPLOAD_FOLDER_def

lemma example_paths:
  "work_dir ''abc123'' ''pablo'' = ''/tmp/n8n_video_processing/abc123/pablo''"
  "video_file ''abc123'' ''pablo'' = ''/tmp/n8n_video_processing/abc123/pablo/source_video.mp4''"
  "audio_file ''abc123'' ''pablo'' = ''/tmp/n8n_video_processing/abc123/pablo/source_audio.mp3''"
  "audio_speed_file ''abc123'' ''pablo'' =
     ''/tmp/n8n_video_processing/abc123/pablo/audio_speed.mp3''"
  "video_filtered_file ''abc123'' ''pablo'' =
     ''/tmp/n8n_video_processing/abc123/pablo/video_filtered.mp4''"
  "output_file_path ''abc123'' ''pablo'' = ''/tmp/downloads/abc123_pablo.mp4''"
  by (simp_all add: path_defs)

lemma example_request_fields:
  "has_fields
     [(''video_url'', PStr ''https://media.example/v.mp4''),
      (''audio_url'', PStr ''https://media.example/a.mp3''),
      (''variant_name'', vn), (''workflow_id'', PStr ''abc123'')]
     (PStr ''https://media.example/v.mp4'') (PStr ''https://media.example/a.mp3'')
     vn (PStr ''abc123'')"
  by (simp add: has_fields_def)

lemma pablo_in_catalog: "''pablo'' \<in> set variant_names"
  by (simp add: variant_names_def VARIANTS_def)

lemma unknown_not_in_catalog: "PStr ''not-a-real-variant'' \<notin> PStr ` set variant_names"
  by (simp add: variant_names_def VARIANTS_def)

section \<open>The variant catalog\<close>

text \<open>
  C9. The catalog has the five names pablo, josh, michael, ryan and brad, and for every one
  of them the configured speed lies in the tempo range [0.5, 2.0] of the encoder, and
  moreover in [0.98, 1.02].
\<close>

theorem variant_speed_in_range:
  "variant_names = [''pablo'', ''josh'', ''michael'', ''ryan'', ''brad''] \<and>
   (\<forall>v \<in> set variant_names. \<exists>p. map_of VARIANTS v = Some p \<and>
      1 / 2 \<le> speed p \<and> speed p \<le> 2 \<and> 98 / 100 \<le> speed p \<and> speed p \<le> 102 / 100)"
  by (simp add: variant_names_def VARIANTS_def)

theorem variant_speed_in_range_witness:
  "''ryan'' \<in> set variant_names \<and>
   (\<exists>p. map_of VARIANTS ''ryan'' = Some p \<and> speed p = 102 / 100 \<and>
      1 / 2 \<le> speed p \<and> speed p \<le> 2 \<and> 98 / 100 \<le> speed p \<and> speed p \<le> 102 / 100)"
proof -
  have m: "''ryan'' \<in> set variant_names"
    by (simp add: variant_names_def VARIANTS_def)
  from variant_speed_in_range m obtain p where
    "map_of VARIANTS ''ryan'' = Some p \<and>
      1 / 2 \<le> speed p \<and> speed p \<le> 2 \<and> 98 / 100 \<le> speed p \<and> speed p \<le> 102 / 100"
    by blast
  moreover have "map_of VARIANTS ''ryan'' =
      Some \<lparr>voice_id = ''4e32WqNVWRquDa1OcRYZ'', speed = 102 / 100,
            filter_spec = ''unsharp=5:5:1.5''\<rparr>"
    by (simp add: VARIANTS_def)
  ultimately show ?thesis using m by auto
qed

section \<open>The encoder stages\<close>






subsection \<open>Validation\<close>

lemma process_variant_try_missing:
  assumes "f \<in> set required_fields" and "map_of kvs f = None"
  shows "process_variant_try env (PDict kvs) = (Inr (Error ''Missing required fields'', 400), [])"
proof -
  have "all_in required_fields (PDict kvs) = Inr False"
    unfolding all_in_required_fields using assms by blast
  then show ?thesis by (simp add: process_variant_try_def)
qed

lemma process_variant_try_unknown:
  assumes "has_fields kvs vu au vn wid" and "hashable vn" and "vn \<notin> PStr ` set variant_names"
  shows "process_variant_try env (PDict kvs) =
           (Inr (Error (''Unknown variant: '' @ py_str env vn), 400), [])"
  using assms has_fields_request [OF assms(1)]
  by (simp add: process_variant_try_def has_fields_def in_VARIANTS_def)

lemma process_variant_try_unhashable:
  assumes "has_fields kvs vu au vn wid" and "\<not> hashable vn"
  shows "process_variant_try env (PDict kvs) = (Inl TypeError, [])"
  using assms has_fields_request [OF assms(1)]
  by (simp add: process_variant_try_def has_fields_def in_VARIANTS_def)

text \<open>
  C10, as the code has it. A request whose body is a mapping that lacks one of the four
  required fields, or has them all with a \<open>variant_name\<close> that is a hashable JSON value
  (a string, a number, a boolean or null) outside the catalog, is answered 400 with an
  error body. When the \<open>variant_name\<close> is a list or an object, the membership test
  raises \<open>TypeError\<close> and the answer is 500. In all these cases the trace of external
  calls is empty: no directory is created, nothing is downloaded, no encoder process is
  started.
\<close>

theorem invalid_request_has_no_effect:
  "((\<exists>f \<in> set required_fields. map_of kvs f = None) \<or>
    (has_fields kvs vu au vn wid \<and> hashable vn \<and> vn \<notin> PStr ` set variant_names) \<longrightarrow>
      (\<exists>m. process_variant env (PDict kvs) = ((Error m, 400), []))) \<and>
   (has_fields kvs vu au vn wid \<and> \<not> hashable vn \<longrightarrow>
      process_variant env (PDict kvs) = ((Error (str_exn env TypeError), 500), []))"
proof -
  have invalid: "\<exists>m. process_variant env (PDict kvs) = ((Error m, 400), [])"
    if "(\<exists>f \<in> set required_fields. map_of kvs f = None) \<or>
        (has_fields kvs vu au vn wid \<and> hashable vn \<and> vn \<notin> PStr ` set variant_names)"
  proof -
    from that consider
      (missing) f where "f \<in> set required_fields" and "map_of kvs f = None"
      | (unknown) "has_fields kvs vu au vn wid" and "hashable vn"
          and "vn \<notin> PStr ` set variant_names"
      by blast
    then show ?thesis
    proof cases
      case missing
      from process_variant_try_missing [OF this, of env] show ?thesis
        by (simp add: process_variant_def)
    next
      case unknown
      from process_variant_try_unknown [OF this, of env] show ?thesis
        by (simp add: process_variant_def)
    qed
  qed
  have unhashable: "process_variant env (PDict kvs) = ((Error (str_exn env TypeError), 500), [])"
    if "has_fields kvs vu au vn wid" and "\<not> hashable vn"
    using process_variant_try_unhashable [OF that, of env] by (simp add: process_variant_def)
  from invalid unhashable show ?thesis by blast
qed

theorem invalid_request_has_no_effect_witness:
  "(\<exists>f \<in> set required_fields.
      map_of [(''video_url'', PStr ''https://media.example/v.mp4'')] f = None) \<and>
   (\<exists>m. process_variant env_ok (PDict [(''video_url'', PStr ''https://media.example/v.mp4'')])
          = ((Error m, 400), [])) \<and>
   hashable (PStr ''not-a-real-variant'') \<and>
   PStr ''not-a-real-variant'' \<notin> PStr ` set variant_names \<and>
   (\<exists>m. process_variant env_ok unknown_variant_request = ((Error m, 400), [])) \<and>
   \<not> hashable (PList [PStr ''pablo'']) \<and>
   process_variant env_ok unhashable_variant_request = ((Error ''<exception>'', 500), [])"
proof -
  let ?vu = "PStr ''https://media.example/v.mp4''"
  let ?au = "PStr ''https://media.example/a.mp3''"
  have missing: "\<exists>f \<in> set required_fields.
      map_of [(''video_url'', PStr ''https://media.example/v.mp4'')] f = None"
    by (rule bexI [of _ "''audio_url''"]) (simp_all add: required_fields_def)
  from invalid_request_has_no_effect
    [of "[(''video_url'', PStr ''https://media.example/v.mp4'')]" PNone PNone PNone PNone env_ok]
    missing
  have first: "\<exists>m. process_variant env_ok
      (PDict [(''video_url'', PStr ''https://media.example/v.mp4'')]) = ((Error m, 400), [])"
    by blast
  from invalid_request_has_no_effect
    [of _ ?vu ?au "PStr ''not-a-real-variant''" "PStr ''abc123''" env_ok]
    example_request_fields [of "PStr ''not-a-real-variant''"] unknown_not_in_catalog
  have second: "\<exists>m. process_variant env_ok unknown_variant_request = ((Error m, 400), [])"
    unfolding unknown_variant_request_def request_def by simp
  from invalid_request_has_no_effect
    [of _ ?vu ?au "PList [PStr ''pablo'']" "PStr ''abc123''" env_ok]
    example_request_fields [of "PList [PStr ''pablo'']"]
  have third: "process_variant env_ok unhashable_variant_request =
      ((Error ''<exception>'', 500), [])"
    unfolding unhashable_variant_request_def request_def by (simp add: env_ok_def)
  from missing first second third unknown_not_in_catalog show ?thesis by simp
qed

text \<open>
  C10, as the claim states it, fails: the body is a mapping with all four fields, its
  \<open>variant_name\<close> is the list \<open>["pablo"]\<close>, which is not a catalog key, and the answer
  is 500, not 400 (with no external call made).
\<close>

theorem unhashable_variant_is_500:
  "process_variant env_ok unhashable_variant_request = ((Error ''<exception>'', 500), [])"
  using process_variant_try_unhashable
    [OF example_request_fields [of "PList [PStr ''pablo'']"], of env_ok]
  by (simp add: process_variant_def unhashable_variant_request_def request_def env_ok_def)

subsection \<open>Order of the stages\<close>

lemma run_job_trace_prefix:
  assumes "\<not> makedirs_raises env (work_dir w v)"
  shows "\<exists>rest. snd (run_job env vu au w v) = Makedirs (work_dir w v) # HttpGet vu 300 # rest"
  using assms
  by (auto simp add: run_job_def Let_def stage_results split: option.splits bool.splits)

lemma run_job_trace_fetched:
  assumes "\<not> makedirs_raises env (work_dir w v)" and "fetch env vu (video_file w v) = Fetched"
  shows "\<exists>rest. snd (run_job env vu au w v) =
           [Makedirs (work_dir w v), HttpGet vu 300, OpenWrite (video_file w v), HttpGet au 300]
           @ rest"
  using assms
  by (auto simp add: run_job_def Let_def stage_results split: option.splits bool.splits)

lemma run_job_trace_run:
  assumes "Run cmd t \<in> set (snd (run_job env vu au w v))"
  shows "\<exists>rest. snd (run_job env vu au w v) =
           [Makedirs (work_dir w v), HttpGet vu 300, OpenWrite (video_file w v),
            HttpGet au 300, OpenWrite (audio_file w v)] @ rest"
  using assms
  by (auto simp add: run_job_def Let_def stage_results
      split: option.splits bool.splits if_splits)

text \<open>
  C3, as the code has it. The variant name is checked against the catalog during
  validation, before the workspace is created and before any fetch: a request with the four
  fields whose \<open>variant_name\<close> is a hashable value outside the catalog is answered
  400 \<open>Unknown variant\<close> with an empty trace. For a request that passes validation (and
  whose workspace can be created) the trace starts with the creation of the workspace, then
  the request for the video; once the video is fetched the request for the audio follows;
  and any encoder run comes after both downloads.
\<close>

theorem variant_checked_before_fetching:
  "(has_fields kvs vu au vn wid \<and> hashable vn \<and> vn \<notin> PStr ` set variant_names \<longrightarrow>
      process_variant env (PDict kvs) =
        ((Error (''Unknown variant: '' @ py_str env vn), 400), [])) \<and>
   (has_fields kvs vu au (PStr v) (PStr w) \<and> v \<in> set variant_names \<and>
    \<not> makedirs_raises env (work_dir w v) \<longrightarrow>
      (\<exists>rest. snd (process_variant env (PDict kvs)) =
         Makedirs (work_dir w v) # HttpGet vu 300 # rest) \<and>
      (fetch env vu (video_file w v) = Fetched \<longrightarrow>
         (\<exists>rest. snd (process_variant env (PDict kvs)) =
            [Makedirs (work_dir w v), HttpGet vu 300, OpenWrite (video_file w v),
             HttpGet au 300] @ rest)) \<and>
      (\<forall>cmd t. Run cmd t \<in> set (snd (process_variant env (PDict kvs))) \<longrightarrow>
         (\<exists>rest. snd (process_variant env (PDict kvs)) =
            [Makedirs (work_dir w v), HttpGet vu 300, OpenWrite (video_file w v),
             HttpGet au 300, OpenWrite (audio_file w v)] @ rest)))"
proof -
  have snd_pv: "snd (process_variant env d) = snd (process_variant_try env d)" for d
    by (simp add: process_variant_def split: prod.splits sum.splits)
  have unknown: "process_variant env (PDict kvs) =
        ((Error (''Unknown variant: '' @ py_str env vn), 400), [])"
    if "has_fields kvs vu au vn wid" and "hashable vn" and "vn \<notin> PStr ` set variant_names"
    using process_variant_try_unknown [OF that, of env] by (simp add: process_variant_def)
  have known: "snd (process_variant env (PDict kvs)) = snd (run_job env vu au w v)"
    if "has_fields kvs vu au (PStr v) (PStr w)" and "v \<in> set variant_names"
    using that by (simp add: snd_pv process_variant_try_valid)
  show ?thesis
    using unknown known run_job_trace_prefix [of env w v vu au]
      run_job_trace_fetched [of env w v vu au] run_job_trace_run [of _ _ env vu au w v]
    by simp
qed

theorem variant_checked_before_fetching_witness:
  "process_variant env_ok unknown_variant_request =
     ((Error ''Unknown variant: not-a-real-variant'', 400), []) \<and>
   (\<exists>rest. snd (process_variant env_ok example_request) =
      [Makedirs ''/tmp/n8n_video_processing/abc123/pablo'',
       HttpGet (PStr ''https://media.example/v.mp4'') 300,
       OpenWrite ''/tmp/n8n_video_processing/abc123/pablo/source_video.mp4'',
       HttpGet (PStr ''https://media.example/a.mp3'') 300] @ rest)"
proof -
  have ok: "\<not> makedirs_raises env_ok (work_dir ''abc123'' ''pablo'')"
    "fetch env_ok (PStr ''https://media.example/v.mp4'') (video_file ''abc123'' ''pablo'') = Fetched"
    by (simp_all add: env_ok_def)
  have "process_variant env_ok unknown_variant_request =
      ((Error (''Unknown variant: '' @ py_str env_ok (PStr ''not-a-real-variant'')), 400), [])"
    using variant_checked_before_fetching
      [of _ "PStr ''https://media.example/v.mp4''" "PStr ''https://media.example/a.mp3''"
          "PStr ''not-a-real-variant''" "PStr ''abc123''" env_ok]
      example_request_fields [of "PStr ''not-a-real-variant''"] unknown_not_in_catalog
    by (simp add: unknown_variant_request_def request_def)
  moreover have "\<exists>rest. snd (process_variant env_ok example_request) =
      [Makedirs (work_dir ''abc123'' ''pablo''),
       HttpGet (PStr ''https://media.example/v.mp4'') 300,
       OpenWrite (video_file ''abc123'' ''pablo''),
       HttpGet (PStr ''https://media.example/a.mp3'') 300] @ rest"
    using variant_checked_before_fetching
      [of _ "PStr ''https://media.example/v.mp4''" "PStr ''https://media.example/a.mp3''"
          _ _ env_ok "''pablo''" "''abc123''"]
      example_request_fields [of "PStr ''pablo''"] pablo_in_catalog ok
    by (simp add: example_request_def request_def)
  ultimately show ?thesis
    by (simp add: py_str_def example_paths)
qed

text \<open>
  C3, as the claim states it, fails: with every external call succeeding, a request whose
  variant name is absent from the catalog is answered 400 without a single external call,
  so neither asset is fetched.
\<close>

theorem unknown_variant_fetches_nothing:
  "process_variant env_ok unknown_variant_request =
     ((Error ''Unknown variant: not-a-real-variant'', 400), [])"
  using process_variant_try_unknown
    [OF example_request_fields [of "PStr ''not-a-real-variant''"] _ unknown_not_in_catalog,
     of env_ok]
  by (simp add: process_variant_def unknown_variant_request_def request_def py_str_def)


subsection \<open>Failed downloads\<close>





subsection \<open>The workspace after a failure\<close>

text \<open>Only the success path reaches \<open>shutil.rmtree\<close>: every other return comes before it.\<close>

lemma run_job_rmtree_only_on_success:
  "run_job env vu au w v = (r, tr) \<Longrightarrow> Rmtree p \<in> set tr \<Longrightarrow>
     (\<exists>rec. r = Inr (Success rec, 200)) \<and> p = work_dir w v"
  by (auto simp add: run_job_def Let_def stage_results
      split: if_splits option.splits bool.splits)

text \<open>
  C1 at a failing input. The video cannot be downloaded: the handler creates the workspace,
  requests the video and returns 400 \<open>Failed to download video\<close>; the trace ends there,
  with no call of \<open>rmtree\<close> on the workspace. In the world where every call succeeds the
  same request ends with that call.
\<close>

theorem workspace_left_after_failed_download:
  "process_variant (env_ok\<lparr>fetch := \<lambda>url dest. ConnectionFailure\<rparr>) example_request =
     ((Error ''Failed to download video'', 400),
      [Makedirs ''/tmp/n8n_video_processing/abc123/pablo'',
       HttpGet (PStr ''https://media.example/v.mp4'') 300]) \<and>
   Rmtree ''/tmp/n8n_video_processing/abc123/pablo''
     \<notin> set (snd (process_variant (env_ok\<lparr>fetch := \<lambda>url dest. ConnectionFailure\<rparr>)
                 example_request)) \<and>
   last (snd (process_variant env_ok example_request)) =
     Rmtree ''/tmp/n8n_video_processing/abc123/pablo''"
proof -
  have valid: "process_variant_try env example_request =
      run_job env (PStr ''https://media.example/v.mp4'') (PStr ''https://media.example/a.mp3'')
        ''abc123'' ''pablo''" for env
    using process_variant_try_valid [OF example_request_fields pablo_in_catalog]
    by (simp add: example_request_def request_def)
  have failed: "process_variant (env_ok\<lparr>fetch := \<lambda>url dest. ConnectionFailure\<rparr>) example_request =
     ((Error ''Failed to download video'', 400),
      [Makedirs ''/tmp/n8n_video_processing/abc123/pablo'',
       HttpGet (PStr ''https://media.example/v.mp4'') 300])"
    by (simp add: process_variant_def valid run_job_def Let_def stage_results example_paths
        env_ok_def)
  have "map_of VARIANTS ''pablo'' \<noteq> None"
    by (simp add: VARIANTS_def)
  then have "last (snd (process_variant env_ok example_request)) =
     Rmtree ''/tmp/n8n_video_processing/abc123/pablo''"
    by (auto simp add: process_variant_def valid run_job_def Let_def stage_results example_paths
        env_ok_def)
  with failed show ?thesis by simp
qed


subsection \<open>The outcome of a job, stage by stage\<close>

lemma run_job_table:
  assumes "v \<in> set variant_names"
  shows "fst (run_job env vu au w v) =
    (if makedirs_raises env (work_dir w v) then Inl OSError
     else if fetch env vu (video_file w v) \<noteq> Fetched then
       Inr (Error ''Failed to download video'', 400)
     else if fetch env au (audio_file w v) \<noteq> Fetched then
       Inr (Error ''Failed to download audio'', 400)
     else if \<not> speed_stage_ok env w v then Inr (Error ''Failed to adjust audio speed'', 400)
     else if \<not> filter_stage_ok env w v then Inr (Error ''Failed to apply video filter'', 400)
     else if \<not> merge_stage_ok env w v then Inr (Error ''Failed to merge audio and video'', 400)
     else if \<not> path_exists env (output_file_path w v) then
       Inr (Error ''Output file not created'', 400)
     else (case path_getsize env (output_file_path w v) of
             None \<Rightarrow> Inl OSError
           | Some fsize \<Rightarrow>
               Inr (Success \<lparr>variant = v,
                      output_file = output_file_path w v,
                      download_url = ''https://'' @ request_host env @ ''/download/''
                                       @ output_filename w v,
                      file_size = fsize,
                      timestamp = now_isoformat env\<rparr>, 200)))"
proof -
  from assms obtain cfg where "map_of VARIANTS v = Some cfg"
    by (auto simp add: variant_names_map_of)
  then show ?thesis
    by (simp add: run_job_def Let_def stage_results speed_stage_ok_def filter_stage_ok_def
        merge_stage_ok_def split: option.splits)
qed

lemma classified_messages:
  "classified_message env ''Missing required fields''"
  "classified_message env (''Unknown variant: '' @ py_str env vn)"
  "classified_message env ''Failed to download video''"
  "classified_message env ''Failed to download audio''"
  "classified_message env ''Failed to adjust audio speed''"
  "classified_message env ''Failed to apply video filter''"
  "classified_message env ''Failed to merge audio and video''"
  "classified_message env ''Output file not created''"
  by (simp_all add: classified_message_def) blast

lemma process_variant_try_cases:
  assumes "process_variant_try env data = (r, tr)"
  shows "(tr = [] \<and> ((\<exists>e. r = Inl e) \<or> r = Inr (Error ''Missing required fields'', 400) \<or>
            (\<exists>vn. r = Inr (Error (''Unknown variant: '' @ py_str env vn), 400)))) \<or>
         (\<exists>vu au w v. v \<in> set variant_names \<and> run_job env vu au w v = (r, tr))"
  using assms
  by (auto simp add: process_variant_try_def in_VARIANTS_def
      split: sum.splits bool.splits pyval.splits if_splits)

lemma run_job_outcomes:
  assumes "v \<in> set variant_names" and "fst (run_job env vu au w v) = Inr (b, st)"
  shows "(st = 200 \<and> (\<exists>rec. b = Success rec)) \<or>
         (st = 400 \<and> (\<exists>m. b = Error m \<and> classified_message env m))"
  using assms(2) unfolding run_job_table [OF assms(1)]
  by (auto simp add: classified_messages split: if_splits option.splits)

lemma run_job_success:
  assumes "v \<in> set variant_names" and "fst (run_job env vu au w v) = Inr (Success rec, st)"
  shows "path_exists env (output_file rec) \<and> path_getsize env (output_file rec) = Some (file_size rec)
         \<and> output_file rec = output_file_path w v \<and> st = 200"
  using assms(2) unfolding run_job_table [OF assms(1)]
  by (auto split: if_splits option.splits)


lemma process_variant_valid:
  assumes "has_fields kvs vu au (PStr v) (PStr w)" and "v \<in> set variant_names"
  shows "fst (process_variant env (PDict kvs)) =
           (case fst (run_job env vu au w v) of
              Inl e \<Rightarrow> (Error (str_exn env e), 500) | Inr r \<Rightarrow> r)"
    and "snd (process_variant env (PDict kvs)) = snd (run_job env vu au w v)"
  by (simp_all add: process_variant_def process_variant_try_valid [OF assms]
      split: prod.splits sum.splits)

lemma run_job_trace_verified:
  assumes "v \<in> set variant_names" and "\<not> makedirs_raises env (work_dir w v)"
    and "downloads_ok env vu au w v" and "speed_stage_ok env w v"
    and "filter_stage_ok env w v" and "merge_stage_ok env w v"
  shows "\<exists>tr0. snd (run_job env vu au w v) =
           tr0 @ Run (merge_audio_video_cmd (video_filtered_file w v) (audio_speed_file w v)
                   (output_file_path w v)) 600
               # Exists (output_file_path w v)
               # (if \<not> path_exists env (output_file_path w v) then []
                  else case path_getsize env (output_file_path w v) of
                         None \<Rightarrow> [Getsize (output_file_path w v)]
                       | Some n \<Rightarrow> [Getsize (output_file_path w v), Rmtree (work_dir w v)])"
proof -
  from assms(1) obtain cfg where "map_of VARIANTS v = Some cfg"
    by (auto simp add: variant_names_map_of)
  with assms(2-) show ?thesis
    by (simp add: run_job_def Let_def stage_results speed_stage_ok_def filter_stage_ok_def
        merge_stage_ok_def downloads_ok_def split: option.splits)
qed

subsection \<open>Verification of the artifact\<close>

text \<open>
  C2, as the code has it. After the merge stage succeeded the handler asks whether the
  output file exists, and only that: absence gives 400 \<open>Output file not created\<close>; a file
  that exists is accepted whatever its size. On success the reported \<open>file_size\<close> is the
  size \<open>os.path.getsize\<close> returns for the output file, which exists; it can be zero.
\<close>

theorem output_checked_for_existence:
  "(fst (process_variant env data) = (Success rec, st) \<longrightarrow>
      st = 200 \<and> path_exists env (output_file rec) \<and>
      path_getsize env (output_file rec) = Some (file_size rec)) \<and>
   (has_fields kvs vu au (PStr v) (PStr w) \<and> v \<in> set variant_names \<and>
    \<not> makedirs_raises env (work_dir w v) \<and> downloads_ok env vu au w v \<and>
    speed_stage_ok env w v \<and> filter_stage_ok env w v \<and> merge_stage_ok env w v \<longrightarrow>
      (\<exists>tr0 rest. snd (process_variant env (PDict kvs)) =
         tr0 @ Run (merge_audio_video_cmd (video_filtered_file w v) (audio_speed_file w v)
                 (output_file_path w v)) 600
             # Exists (output_file_path w v) # rest) \<and>
      (\<not> path_exists env (output_file_path w v) \<longrightarrow>
         fst (process_variant env (PDict kvs)) = (Error ''Output file not created'', 400)) \<and>
      (\<forall>n. path_exists env (output_file_path w v) \<and>
            path_getsize env (output_file_path w v) = Some n \<longrightarrow>
         (\<exists>r. fst (process_variant env (PDict kvs)) = (Success r, 200) \<and>
              output_file r = output_file_path w v \<and> file_size r = n)))"
proof -
  have general: "st = 200 \<and> path_exists env (output_file rec) \<and>
      path_getsize env (output_file rec) = Some (file_size rec)"
    if success: "fst (process_variant env data) = (Success rec, st)"
  proof -
    obtain r tr where res: "process_variant_try env data = (r, tr)"
      by (cases "process_variant_try env data")
    with res success have r: "r = Inr (Success rec, st)"
      by (simp add: process_variant_def split: sum.splits)
    from process_variant_try_cases [OF res] r obtain vu' au' w' v' where
      "v' \<in> set variant_names" and "run_job env vu' au' w' v' = (r, tr)"
      by blast
    then show ?thesis
      using run_job_success [of v' env vu' au' w' rec st] r by auto
  qed
  have valid: "(\<exists>tr0 rest. snd (process_variant env (PDict kvs)) =
         tr0 @ Run (merge_audio_video_cmd (video_filtered_file w v) (audio_speed_file w v)
                 (output_file_path w v)) 600
             # Exists (output_file_path w v) # rest) \<and>
      (\<not> path_exists env (output_file_path w v) \<longrightarrow>
         fst (process_variant env (PDict kvs)) = (Error ''Output file not created'', 400)) \<and>
      (\<forall>n. path_exists env (output_file_path w v) \<and>
            path_getsize env (output_file_path w v) = Some n \<longrightarrow>
         (\<exists>r. fst (process_variant env (PDict kvs)) = (Success r, 200) \<and>
              output_file r = output_file_path w v \<and> file_size r = n))"
    if "has_fields kvs vu au (PStr v) (PStr w)" and "v \<in> set variant_names"
      and "\<not> makedirs_raises env (work_dir w v)" and "downloads_ok env vu au w v"
      and "speed_stage_ok env w v" and "filter_stage_ok env w v" and "merge_stage_ok env w v"
  proof -
    from run_job_trace_verified [OF that(2-7)] have
      "\<exists>tr0 rest. snd (process_variant env (PDict kvs)) =
         tr0 @ Run (merge_audio_video_cmd (video_filtered_file w v) (audio_speed_file w v)
                 (output_file_path w v)) 600
             # Exists (output_file_path w v) # rest"
      unfolding process_variant_valid(2) [OF that(1,2)] by blast
    moreover from that(3-7) have
      "\<not> path_exists env (output_file_path w v) \<longrightarrow>
         fst (process_variant env (PDict kvs)) = (Error ''Output file not created'', 400)"
      unfolding process_variant_valid(1) [OF that(1,2)] run_job_table [OF that(2)]
      by (simp add: downloads_ok_def)
    moreover from that(3-7) have
      "\<forall>n. path_exists env (output_file_path w v) \<and>
            path_getsize env (output_file_path w v) = Some n \<longrightarrow>
         (\<exists>r. fst (process_variant env (PDict kvs)) = (Success r, 200) \<and>
              output_file r = output_file_path w v \<and> file_size r = n)"
      unfolding process_variant_valid(1) [OF that(1,2)] run_job_table [OF that(2)]
      by (simp add: downloads_ok_def)
    ultimately show ?thesis by blast
  qed
  from general valid show ?thesis by blast
qed

text \<open>The docstring's request in any world: it passes validation and runs the job.\<close>

lemma example_request_runs:
  "fst (process_variant env example_request) =
     (case fst (run_job env (PStr ''https://media.example/v.mp4'')
                  (PStr ''https://media.example/a.mp3'') ''abc123'' ''pablo'') of
        Inl e \<Rightarrow> (Error (str_exn env e), 500) | Inr r \<Rightarrow> r)"
  unfolding example_request_def request_def
  by (rule process_variant_valid(1) [OF example_request_fields pablo_in_catalog])

lemmas example_stage_defs =
  speed_stage_ok_def filter_stage_ok_def merge_stage_ok_def downloads_ok_def
  VARIANTS_def env_ok_def example_paths output_filename_def

theorem output_checked_for_existence_witness:
  "path_exists env_ok ''/tmp/downloads/abc123_pablo.mp4'' \<and>
   path_getsize env_ok ''/tmp/downloads/abc123_pablo.mp4'' = Some 1024 \<and>
   fst (process_variant (env_ok\<lparr>path_exists := \<lambda>p. False\<rparr>) example_request) =
     (Error ''Output file not created'', 400)"
proof -
  let ?rec = "\<lparr>variant = ''pablo'', output_file = ''/tmp/downloads/abc123_pablo.mp4'',
      download_url = ''https://worker.example/download/abc123_pablo.mp4'',
      file_size = 1024, timestamp = ''2024-01-01T00:00:00''\<rparr>"
  let ?env = "env_ok\<lparr>path_exists := \<lambda>p. False\<rparr>"
  have "fst (process_variant env_ok example_request) = (Success ?rec, 200)"
    unfolding example_request_runs run_job_table [OF pablo_in_catalog]
    by (simp add: example_stage_defs)
  with output_checked_for_existence [of env_ok example_request ?rec 200]
  have present: "path_exists env_ok ''/tmp/downloads/abc123_pablo.mp4'' \<and>
      path_getsize env_ok ''/tmp/downloads/abc123_pablo.mp4'' = Some 1024"
    by simp
  have stages: "\<not> makedirs_raises ?env (work_dir ''abc123'' ''pablo'')"
    "downloads_ok ?env (PStr ''https://media.example/v.mp4'')
       (PStr ''https://media.example/a.mp3'') ''abc123'' ''pablo''"
    "speed_stage_ok ?env ''abc123'' ''pablo''"
    "filter_stage_ok ?env ''abc123'' ''pablo''"
    "merge_stage_ok ?env ''abc123'' ''pablo''"
    "\<not> path_exists ?env (output_file_path ''abc123'' ''pablo'')"
    by (simp_all add: example_stage_defs)
  from output_checked_for_existence
    [of ?env _ _ _ _ "PStr ''https://media.example/v.mp4''"
        "PStr ''https://media.example/a.mp3''" "''pablo''" "''abc123''"]
    example_request_fields [of "PStr ''pablo''"] pablo_in_catalog stages
  have "fst (process_variant ?env example_request) = (Error ''Output file not created'', 400)"
    unfolding example_request_def request_def by blast
  with present show ?thesis by simp
qed

text \<open>
  C2, as the claim states it, fails: when every stage succeeds and the encoder leaves an
  empty output file, the handler answers 200 and reports \<open>file_size\<close> 0. Nothing checks
  that the artifact is non-empty.
\<close>

theorem empty_output_reported_as_success:
  "fst (process_variant (env_ok\<lparr>path_getsize := \<lambda>p. Some 0\<rparr>) example_request) =
     (Success \<lparr>variant = ''pablo'', output_file = ''/tmp/downloads/abc123_pablo.mp4'',
        download_url = ''https://worker.example/download/abc123_pablo.mp4'',
        file_size = 0, timestamp = ''2024-01-01T00:00:00''\<rparr>, 200)"
  unfolding example_request_runs run_job_table [OF pablo_in_catalog]
  by (simp add: example_stage_defs)

subsection \<open>Status codes\<close>

text \<open>
  C5. An exception raised inside the handler's \<open>try\<close> is answered 500 with the message of
  the exception, and nothing else is: every response the body returns itself is either 200
  with the success record or 400 with one of the handler's own error messages. For a body
  that is a mapping: a missing required field gives 400; a hashable \<open>variant_name\<close> outside
  the catalog gives 400; and for a request that passes validation, once the workspace is
  created, the first stage that fails decides the response: a failed download of the video
  or the audio, a failed speed adjustment, a failed filter, a failed merge and a missing
  output file each give 400 with their message, and when all succeed the response is 200
  with the success record (or 500 when reading the size of the output raises).
\<close>

theorem pipeline_failures_are_400:
  "(\<forall>e. fst (process_variant_try env data) = Inl e \<longrightarrow>
      fst (process_variant env data) = (Error (str_exn env e), 500)) \<and>
   (\<forall>r. fst (process_variant_try env data) = Inr r \<longrightarrow>
      fst (process_variant env data) = r \<and>
      ((\<exists>rec. r = (Success rec, 200)) \<or> (\<exists>m. r = (Error m, 400) \<and> classified_message env m))) \<and>
   ((\<exists>f \<in> set required_fields. map_of kvs f = None) \<longrightarrow>
      fst (process_variant env (PDict kvs)) = (Error ''Missing required fields'', 400)) \<and>
   (has_fields kvs vu au vn wid \<and> hashable vn \<and> vn \<notin> PStr ` set variant_names \<longrightarrow>
      fst (process_variant env (PDict kvs)) =
        (Error (''Unknown variant: '' @ py_str env vn), 400)) \<and>
   (has_fields kvs vu au (PStr v) (PStr w) \<and> v \<in> set variant_names \<and>
    \<not> makedirs_raises env (work_dir w v) \<longrightarrow>
      fst (process_variant env (PDict kvs)) =
        (if fetch env vu (video_file w v) \<noteq> Fetched then
           (Error ''Failed to download video'', 400)
         else if fetch env au (audio_file w v) \<noteq> Fetched then
           (Error ''Failed to download audio'', 400)
         else if \<not> speed_stage_ok env w v then (Error ''Failed to adjust audio speed'', 400)
         else if \<not> filter_stage_ok env w v then (Error ''Failed to apply video filter'', 400)
         else if \<not> merge_stage_ok env w v then (Error ''Failed to merge audio and video'', 400)
         else if \<not> path_exists env (output_file_path w v) then
           (Error ''Output file not created'', 400)
         else (case path_getsize env (output_file_path w v) of
                 None \<Rightarrow> (Error (str_exn env OSError), 500)
               | Some fsize \<Rightarrow>
                   (Success \<lparr>variant = v,
                      output_file = output_file_path w v,
                      download_url = ''https://'' @ request_host env @ ''/download/''
                                       @ output_filename w v,
                      file_size = fsize,
                      timestamp = now_isoformat env\<rparr>, 200))))"
proof -
  have raised: "fst (process_variant env data) = (Error (str_exn env e), 500)"
    if "fst (process_variant_try env data) = Inl e" for e
    using that by (cases "process_variant_try env data") (simp add: process_variant_def)
  have returned: "fst (process_variant env data) = r \<and>
      ((\<exists>rec. r = (Success rec, 200)) \<or> (\<exists>m. r = (Error m, 400) \<and> classified_message env m))"
    if r: "fst (process_variant_try env data) = Inr r" for r
  proof -
    obtain tr where res: "process_variant_try env data = (Inr r, tr)"
      using r by (cases "process_variant_try env data") simp
    from process_variant_try_cases [OF res]
    have "(\<exists>rec. r = (Success rec, 200)) \<or> (\<exists>m. r = (Error m, 400) \<and> classified_message env m)"
    proof (elim disjE conjE exE)
      assume "Inr r = Inr (Error ''Missing required fields'', 400)"
      then show ?thesis by (simp add: classified_messages)
    next
      fix vn assume "Inr r = Inr (Error (''Unknown variant: '' @ py_str env vn), 400)"
      then have "r = (Error (''Unknown variant: '' @ py_str env vn), 400)" by simp
      then show ?thesis using classified_messages(2) by blast
    next
      fix vu' au' w' v'
      assume "v' \<in> set variant_names" and "run_job env vu' au' w' v' = (Inr r, tr)"
      then show ?thesis
        using run_job_outcomes [of v' env vu' au' w' "fst r" "snd r"] by (cases r) auto
    qed simp
    with res show ?thesis by (simp add: process_variant_def)
  qed
  have missing: "fst (process_variant env (PDict kvs)) = (Error ''Missing required fields'', 400)"
    if "\<exists>f \<in> set required_fields. map_of kvs f = None"
  proof -
    from that obtain f where "f \<in> set required_fields" and "map_of kvs f = None" by blast
    from process_variant_try_missing [OF this, of env] show ?thesis
      by (simp add: process_variant_def)
  qed
  have unknown: "fst (process_variant env (PDict kvs)) =
        (Error (''Unknown variant: '' @ py_str env vn), 400)"
    if "has_fields kvs vu au vn wid" and "hashable vn" and "vn \<notin> PStr ` set variant_names"
    using process_variant_try_unknown [OF that, of env] by (simp add: process_variant_def)
  have job: "fst (process_variant env (PDict kvs)) =
        (if fetch env vu (video_file w v) \<noteq> Fetched then
           (Error ''Failed to download video'', 400)
         else if fetch env au (audio_file w v) \<noteq> Fetched then
           (Error ''Failed to download audio'', 400)
         else if \<not> speed_stage_ok env w v then (Error ''Failed to adjust audio speed'', 400)
         else if \<not> filter_stage_ok env w v then (Error ''Failed to apply video filter'', 400)
         else if \<not> merge_stage_ok env w v then (Error ''Failed to merge audio and video'', 400)
         else if \<not> path_exists env (output_file_path w v) then
           (Error ''Output file not created'', 400)
         else (case path_getsize env (output_file_path w v) of
                 None \<Rightarrow> (Error (str_exn env OSError), 500)
               | Some fsize \<Rightarrow>
                   (Success \<lparr>variant = v,
                      output_file = output_file_path w v,
                      download_url = ''https://'' @ request_host env @ ''/download/''
                                       @ output_filename w v,
                      file_size = fsize,
                      timestamp = now_isoformat env\<rparr>, 200)))"
    if "has_fields kvs vu au (PStr v) (PStr w)" and "v \<in> set variant_names"
      and "\<not> makedirs_raises env (work_dir w v)"
    unfolding process_variant_valid(1) [OF that(1,2)] run_job_table [OF that(2)]
    using that(3) by (simp split: option.splits)
  from raised returned missing unknown job show ?thesis by blast
qed

theorem pipeline_failures_are_400_witness:
  "fst (process_variant env_ok PNone) = (Error ''<exception>'', 500) \<and>
   fst (process_variant env_ok (PDict [])) = (Error ''Missing required fields'', 400) \<and>
   fst (process_variant env_ok unknown_variant_request) =
     (Error ''Unknown variant: not-a-real-variant'', 400) \<and>
   fst (process_variant (env_ok\<lparr>subprocess_run := \<lambda>cmd t. Completed 1\<rparr>) example_request) =
     (Error ''Failed to adjust audio speed'', 400) \<and>
   (\<exists>rec. fst (process_variant env_ok example_request) = (Success rec, 200))"
proof -
  let ?vu = "PStr ''https://media.example/v.mp4''"
  let ?au = "PStr ''https://media.example/a.mp3''"
  let ?env = "env_ok\<lparr>subprocess_run := \<lambda>cmd t. Completed 1\<rparr>"
  have "fst (process_variant_try env_ok PNone) = Inl TypeError"
    by (simp add: process_variant_try_def required_fields_def)
  with pipeline_failures_are_400 [of env_ok PNone]
  have raised: "fst (process_variant env_ok PNone) = (Error ''<exception>'', 500)"
    by (simp add: env_ok_def)
  have "\<exists>f \<in> set required_fields. map_of ([] :: (string \<times> pyval) list) f = None"
    by (rule bexI [of _ "''video_url''"]) (simp_all add: required_fields_def)
  with pipeline_failures_are_400 [of env_ok _ "[]"]
  have missing: "fst (process_variant env_ok (PDict [])) = (Error ''Missing required fields'', 400)"
    by blast
  from pipeline_failures_are_400
    [of env_ok _ _ ?vu ?au "PStr ''not-a-real-variant''" "PStr ''abc123''"]
    example_request_fields [of "PStr ''not-a-real-variant''"] unknown_not_in_catalog
  have unknown: "fst (process_variant env_ok unknown_variant_request) =
      (Error ''Unknown variant: not-a-real-variant'', 400)"
    by (simp add: unknown_variant_request_def request_def py_str_def)
  have stages: "\<not> makedirs_raises ?env (work_dir ''abc123'' ''pablo'')"
    "fetch ?env ?vu (video_file ''abc123'' ''pablo'') = Fetched"
    "fetch ?env ?au (audio_file ''abc123'' ''pablo'') = Fetched"
    "\<not> speed_stage_ok ?env ''abc123'' ''pablo''"
    by (simp_all add: example_stage_defs)
  from pipeline_failures_are_400 [of ?env _ _ ?vu ?au _ _ "''pablo''" "''abc123''"]
    example_request_fields [of "PStr ''pablo''"] pablo_in_catalog stages
  have speed: "fst (process_variant ?env example_request) =
      (Error ''Failed to adjust audio speed'', 400)"
    by (simp add: example_request_def request_def)
  have "fst (process_variant_try env_ok example_request) =
      Inr (Success \<lparr>variant = ''pablo'', output_file = ''/tmp/downloads/abc123_pablo.mp4'',
        download_url = ''https://worker.example/download/abc123_pablo.mp4'',
        file_size = 1024, timestamp = ''2024-01-01T00:00:00''\<rparr>, 200)"
    using process_variant_try_valid
      [OF example_request_fields [of "PStr ''pablo''"] pablo_in_catalog, of env_ok]
      run_job_table [OF pablo_in_catalog, of env_ok ?vu ?au "''abc123''"]
    by (simp add: example_request_def request_def example_stage_defs)
  from pipeline_failures_are_400 [of env_ok example_request,
      THEN conjunct2, THEN conjunct1, rule_format, OF this, THEN conjunct1]
  have success: "\<exists>rec. fst (process_variant env_ok example_request) = (Success rec, 200)"
    by blast
  from raised missing unknown speed success show ?thesis by blast
qed


section \<open>The paths of two jobs\<close>

lemma split_slash_no_slash: "CHR ''/'' \<notin> set xs \<Longrightarrow> split_slash xs = [xs]"
  by (induction xs) auto

lemma split_slash_append:
  "CHR ''/'' \<notin> set xs \<Longrightarrow> split_slash (xs @ CHR ''/'' # ys) = xs # split_slash ys"
  by (induction xs) auto

lemma catalog_name:
  assumes "v \<in> set variant_names"
  shows "v \<noteq> []" and "CHR ''/'' \<notin> set v" and "CHR ''_'' \<notin> set v"
    and "v \<noteq> ''.''" and "v \<noteq> ''..''" and "v \<noteq> ''n8n_video_processing''"
  using assms by (auto simp add: variant_names_def VARIANTS_def)

lemma hd_not_slash: "CHR ''/'' \<notin> set s \<Longrightarrow> \<not> (s \<noteq> [] \<and> hd s = CHR ''/'')"
  by (cases s) auto

lemma work_dir_no_slash:
  assumes "CHR ''/'' \<notin> set w" and "w \<noteq> []" and "v \<in> set variant_names"
  shows "work_dir w v = ''/tmp/n8n_video_processing/'' @ w @ ''/'' @ v"
proof -
  have "last w \<noteq> CHR ''/''"
    using assms(1,2) last_in_set [of w] by metis
  then show ?thesis
    using hd_not_slash [OF assms(1)] hd_not_slash [OF catalog_name(2) [OF assms(3)]] assms(2)
    by (simp add: work_dir_def os_path_join_def join2_def TEMP_FOLDER_def)
qed

lemma output_file_path_no_slash:
  assumes "CHR ''/'' \<notin> set w"
  shows "output_file_path w v = ''/tmp/downloads/'' @ w @ ''_'' @ v @ ''.mp4''"
proof -
  have "hd (w @ ''_'' @ v @ ''.mp4'') \<noteq> CHR ''/''"
    using assms by (cases w) auto
  then show ?thesis
    by (simp add: output_file_path_def output_filename_def os_path_join_def join2_def
        UPLOAD_FOLDER_def)
qed

lemma resolve_work_dir:
  assumes "CHR ''/'' \<notin> set w" and "w \<noteq> []" and "w \<noteq> ''.''" and "v \<in> set variant_names"
  shows "resolve (work_dir w v) =
           (if w = ''..'' then [''tmp'', v] else [''tmp'', ''n8n_video_processing'', w, v])"
proof -
  have "split_slash (w @ CHR ''/'' # v) = [w, v]"
    using assms(1) catalog_name(2) [OF assms(4)]
    by (simp add: split_slash_append split_slash_no_slash)
  then have "split_slash (work_dir w v) = ['''', ''tmp'', ''n8n_video_processing'', w, v]"
    by (simp add: work_dir_no_slash [OF assms(1,2,4)])
  then show ?thesis
    using assms(2,3) catalog_name(1,4,5) [OF assms(4)]
    by (simp add: resolve_def norm_step_def)
qed

lemma first_separator:
  "c \<notin> set xs \<Longrightarrow> c \<notin> set ys \<Longrightarrow> xs @ c # xs' = ys @ c # ys' \<Longrightarrow> xs = ys \<and> xs' = ys'"
proof (induction xs arbitrary: ys)
  case Nil
  then show ?case by (cases ys) auto
next
  case (Cons a xs)
  then show ?case by (cases ys) auto
qed

lemma filename_inj:
  assumes "v1 \<in> set variant_names" and "v2 \<in> set variant_names"
    and "w1 @ ''_'' @ v1 @ ''.mp4'' = w2 @ ''_'' @ v2 @ ''.mp4''"
  shows "w1 = w2 \<and> v1 = v2"
proof -
  from assms(3) have "w1 @ CHR ''_'' # v1 = w2 @ CHR ''_'' # v2"
    by simp
  then have "rev (w1 @ CHR ''_'' # v1) = rev (w2 @ CHR ''_'' # v2)"
    by (rule arg_cong)
  then have "rev v1 @ CHR ''_'' # rev w1 = rev v2 @ CHR ''_'' # rev w2"
    by (simp only: rev_append rev.simps append_assoc append.simps)
  moreover have "CHR ''_'' \<notin> set (rev v1)" "CHR ''_'' \<notin> set (rev v2)"
    using catalog_name(3) [OF assms(1)] catalog_name(3) [OF assms(2)] by simp_all
  ultimately have "rev v1 = rev v2 \<and> rev w1 = rev w2"
    by (rule first_separator [rotated 2])
  then show ?thesis by simp
qed

lemma resolve_output_file_path:
  assumes "CHR ''/'' \<notin> set w" and "v \<in> set variant_names"
  shows "resolve (output_file_path w v) = [''tmp'', ''downloads'', w @ ''_'' @ v @ ''.mp4'']"
proof -
  let ?name = "w @ ''_'' @ v @ ''.mp4''"
  have "CHR ''/'' \<notin> set ?name"
    using assms(1) catalog_name(2) [OF assms(2)] by simp
  then have "split_slash ?name = [?name]"
    by (rule split_slash_no_slash)
  then have "split_slash (output_file_path w v) = ['''', ''tmp'', ''downloads'', ?name]"
    by (simp add: output_file_path_no_slash [OF assms(1)])
  moreover have "?name \<noteq> s" if "length s < 5" for s
  proof
    assume "?name = s"
    then have "length ?name = length s" by (rule arg_cong)
    with that show False by simp
  qed
  then have "?name \<noteq> []" and "?name \<noteq> ''.''" and "?name \<noteq> ''..''"
    by simp_all
  ultimately show ?thesis
    by (simp add: resolve_def norm_step_def)
qed

text \<open>
  Paths as byte strings: for catalog variant names and workflow ids without a slash byte,
  equal output paths, and equal or overlapping workspaces, mean equal tuples.
\<close>

lemma job_paths_distinct_bytes:
  assumes "v1 \<in> set variant_names" and "v2 \<in> set variant_names"
    and "CHR ''/'' \<notin> set w1" and "CHR ''/'' \<notin> set w2"
  shows "output_file_path w1 v1 = UPLOAD_FOLDER @ ''/'' @ w1 @ ''_'' @ v1 @ ''.mp4'' \<and>
    (output_file_path w1 v1 = output_file_path w2 v2) = (w1 = w2 \<and> v1 = v2) \<and>
    (resolve (output_file_path w1 v1) = resolve (output_file_path w2 v2)) = (w1 = w2 \<and> v1 = v2) \<and>
    (w1 \<noteq> [] \<and> w1 \<noteq> ''.'' \<and> w2 \<noteq> [] \<and> w2 \<noteq> ''.'' \<longrightarrow>
       work_dir w1 v1 = TEMP_FOLDER @ ''/'' @ w1 @ ''/'' @ v1 \<and>
       (work_dir w1 v1 = work_dir w2 v2) = (w1 = w2 \<and> v1 = v2) \<and>
       overlapping (work_dir w1 v1) (work_dir w2 v2) = (w1 = w2 \<and> v1 = v2))"
proof -
  have out_format: "output_file_path w1 v1 = UPLOAD_FOLDER @ ''/'' @ w1 @ ''_'' @ v1 @ ''.mp4''"
    by (simp add: output_file_path_no_slash [OF assms(3)] UPLOAD_FOLDER_def)
  have names: "(w1 @ ''_'' @ v1 @ ''.mp4'' = w2 @ ''_'' @ v2 @ ''.mp4'') = (w1 = w2 \<and> v1 = v2)"
    using filename_inj [OF assms(1,2)] by blast
  have out_eq: "(output_file_path w1 v1 = output_file_path w2 v2) = (w1 = w2 \<and> v1 = v2)"
    unfolding output_file_path_no_slash [OF assms(3)] output_file_path_no_slash [OF assms(4)]
    using names by simp
  have out_resolve: "(resolve (output_file_path w1 v1) = resolve (output_file_path w2 v2))
      = (w1 = w2 \<and> v1 = v2)"
    unfolding resolve_output_file_path [OF assms(3,1)] resolve_output_file_path [OF assms(4,2)]
    using names by simp
  have work: "work_dir w1 v1 = TEMP_FOLDER @ ''/'' @ w1 @ ''/'' @ v1 \<and>
       (work_dir w1 v1 = work_dir w2 v2) = (w1 = w2 \<and> v1 = v2) \<and>
       overlapping (work_dir w1 v1) (work_dir w2 v2) = (w1 = w2 \<and> v1 = v2)"
    if ne: "w1 \<noteq> []" "w1 \<noteq> ''.''" "w2 \<noteq> []" "w2 \<noteq> ''.''"
  proof -
    have format: "work_dir w1 v1 = TEMP_FOLDER @ ''/'' @ w1 @ ''/'' @ v1"
      by (simp add: work_dir_no_slash [OF assms(3) ne(1) assms(1)] TEMP_FOLDER_def)
    have "(w1 @ CHR ''/'' # v1 = w2 @ CHR ''/'' # v2) = (w1 = w2 \<and> v1 = v2)"
      using first_separator [OF assms(3,4)] by blast
    then have eq: "(work_dir w1 v1 = work_dir w2 v2) = (w1 = w2 \<and> v1 = v2)"
      unfolding work_dir_no_slash [OF assms(3) ne(1) assms(1)]
        work_dir_no_slash [OF assms(4) ne(3) assms(2)]
      by simp
    have "overlapping (work_dir w1 v1) (work_dir w2 v2) = (w1 = w2 \<and> v1 = v2)"
      unfolding overlapping_def resolve_work_dir [OF assms(3) ne(1,2) assms(1)]
        resolve_work_dir [OF assms(4) ne(3,4) assms(2)]
      using catalog_name(6) [OF assms(1)] catalog_name(6) [OF assms(2)]
        catalog_name(6) [OF assms(1), symmetric] catalog_name(6) [OF assms(2), symmetric]
      by auto
    with format eq show ?thesis by blast
  qed
  from out_format out_eq out_resolve work show ?thesis by blast
qed


subsection \<open>The file-system encoding of a workflow id\<close>

lemma two_digits: "(d::nat) div 64 * 4096 + d mod 64 * 64 = d * 64"
proof -
  define a b where "a = d div 64" and "b = d mod 64"
  have "a * 64 + b = d"
    unfolding a_def b_def by (rule div_mult_mod_eq)
  then have "a * 4096 + b * 64 = d * 64"
    by linarith
  then show ?thesis
    unfolding a_def b_def .
qed

lemma three_digits: "(c::nat) div 4096 * 4096 + c div 64 mod 64 * 64 + c mod 64 = c"
proof -
  have "c div 4096 = c div 64 div 64"
    by (simp add: div_mult2_eq)
  then have "c div 4096 * 4096 + c div 64 mod 64 * 64 = c div 64 * 64"
    using two_digits [of "c div 64"] by (simp only:)
  then show ?thesis
    by (simp only: div_mult_mod_eq)
qed

lemma four_digits:
  "(c::nat) div 262144 * 262144 + c div 4096 mod 64 * 4096 + c div 64 mod 64 * 64 + c mod 64 = c"
proof -
  define a b where "a = c div 4096 div 64" and "b = c div 4096 mod 64"
  have "c div 262144 = a"
    unfolding a_def by (simp add: div_mult2_eq)
  moreover have "a * 64 + b = c div 4096"
    unfolding a_def b_def by (rule div_mult_mod_eq)
  then have "a * 262144 + b * 4096 = c div 4096 * 4096"
    by linarith
  ultimately have "c div 262144 * 262144 + c div 4096 mod 64 * 4096 = c div 4096 * 4096"
    unfolding b_def by (simp only:)
  then show ?thesis
    using three_digits [of c] by (simp only:)
qed

lemma utf8_bytes:
  assumes "utf8_surrogateescape c = Some bs"
  shows "bs \<noteq> []" and "\<forall>b \<in> set bs. b < 256"
    and "c < 128 \<Longrightarrow> bs = [c]" and "128 \<le> c \<Longrightarrow> \<forall>b \<in> set bs. 128 \<le> b"
  using assms by (auto simp add: utf8_surrogateescape_def split: if_splits)

text \<open>The encoding of a scalar value can be read back, whatever follows it.\<close>

lemma utf8_first:
  assumes "scalar c" and "utf8_surrogateescape c = Some x"
  shows "utf8_first (x @ r) = c"
proof -
  consider (one) "c < 128" | (two) "128 \<le> c" "c < 2048" | (three) "2048 \<le> c" "c < 65536"
    | (four) "65536 \<le> c" "c < 1114112"
    using assms(1) unfolding scalar_def by linarith
  then show ?thesis
  proof cases
    case one
    with assms(2) have x: "x = [c]"
      by (simp add: utf8_surrogateescape_def)
    from one show ?thesis
      unfolding x by (simp add: utf8_first_def Let_def)
  next
    case two
    define a b where "a = c div 64" and "b = c mod 64"
    from two assms(2) have x: "x = [192 + a, 128 + b]"
      by (simp add: utf8_surrogateescape_def a_def b_def)
    have "a < 32"
      unfolding a_def using two(2) by (simp add: less_mult_imp_div_less)
    moreover have "a * 64 + b = c"
      unfolding a_def b_def by (rule div_mult_mod_eq)
    ultimately show ?thesis
      unfolding x by (simp add: utf8_first_def Let_def)
  next
    case three
    define a b d where "a = c div 4096" and "b = c div 64 mod 64" and "d = c mod 64"
    from three assms have x: "x = [224 + a, 128 + b, 128 + d]"
      by (auto simp add: utf8_surrogateescape_def scalar_def a_def b_def d_def)
    have "a < 16"
      unfolding a_def using three(2) by (simp add: less_mult_imp_div_less)
    moreover have "a * 4096 + b * 64 + d = c"
      unfolding a_def b_def d_def by (rule three_digits)
    ultimately show ?thesis
      unfolding x by (simp add: utf8_first_def Let_def)
  next
    case four
    define a b d e where "a = c div 262144" and "b = c div 4096 mod 64"
      and "d = c div 64 mod 64" and "e = c mod 64"
    from four assms have x: "x = [240 + a, 128 + b, 128 + d, 128 + e]"
      by (auto simp add: utf8_surrogateescape_def scalar_def a_def b_def d_def e_def)
    have "a * 262144 + b * 4096 + d * 64 + e = c"
      unfolding a_def b_def d_def e_def by (rule four_digits)
    then show ?thesis
      unfolding x by (simp add: utf8_first_def Let_def)
  qed
qed

lemma utf8_chars:
  assumes "utf8_surrogateescape c = Some x"
  shows "map of_char (map char_of x) = x"
proof -
  have "of_char (char_of n :: char) = n" if "n \<in> set x" for n :: nat
    using utf8_bytes(2) [OF assms] that by simp
  then show ?thesis
    by (simp add: map_idI)
qed

lemma fsencode_Cons:
  assumes "fsencode (c # cs) = Some b"
  obtains x rest where "utf8_surrogateescape c = Some x" and "fsencode cs = Some rest"
    and "b = map char_of x @ rest"
  using assms by (auto split: option.splits)

lemma fsencode_Nil_iff:
  assumes "fsencode w = Some b"
  shows "(b = []) = (w = [])"
proof (cases w)
  case Nil
  with assms show ?thesis by simp
next
  case (Cons c cs)
  from assms obtain x rest where "utf8_surrogateescape c = Some x"
    and "fsencode cs = Some rest" and "b = map char_of x @ rest"
    unfolding Cons by (rule fsencode_Cons)
  with utf8_bytes(1) [of c x] Cons show ?thesis by simp
qed

text \<open>Strings of scalar values have an encoding, and distinct ones have distinct encodings.\<close>

lemma fsencode_scalars:
  "list_all scalar w \<Longrightarrow> \<exists>b. fsencode w = Some b"
proof (induction w)
  case Nil
  show ?case by simp
next
  case (Cons c cs)
  then obtain rest where "fsencode cs = Some rest" by auto
  moreover from Cons.prems have "\<exists>x. utf8_surrogateescape c = Some x"
    by (auto simp add: scalar_def utf8_surrogateescape_def)
  ultimately show ?case by auto
qed

lemma fsencode_inj:
  "list_all scalar w1 \<Longrightarrow> list_all scalar w2 \<Longrightarrow> fsencode w1 = Some b \<Longrightarrow>
     fsencode w2 = Some b \<Longrightarrow> w1 = w2"
proof (induction w1 arbitrary: w2 b)
  case Nil
  then have "b = []" by simp
  with fsencode_Nil_iff [OF Nil.prems(4)] show ?case by simp
next
  case (Cons c1 cs1)
  from Cons.prems(3) obtain x1 r1 where 1: "utf8_surrogateescape c1 = Some x1"
    "fsencode cs1 = Some r1" "b = map char_of x1 @ r1"
    by (rule fsencode_Cons)
  from fsencode_Nil_iff [OF Cons.prems(3)] fsencode_Nil_iff [OF Cons.prems(4)]
  obtain c2 cs2 where w2: "w2 = c2 # cs2"
    by (cases w2) auto
  from Cons.prems(4) obtain x2 r2 where 2: "utf8_surrogateescape c2 = Some x2"
    "fsencode cs2 = Some r2" "b = map char_of x2 @ r2"
    unfolding w2 by (rule fsencode_Cons)
  from 1(3) 2(3)
  have "(map of_char (map char_of x1 @ r1) :: nat list) = map of_char (map char_of x2 @ r2)"
    by simp
  then have "x1 @ map of_char r1 = x2 @ map of_char r2"
    unfolding map_append utf8_chars [OF 1(1)] utf8_chars [OF 2(1)] .
  then have "utf8_first (x1 @ map of_char r1) = utf8_first (x2 @ map of_char r2)"
    by (rule arg_cong)
  moreover from Cons.prems(1,2) have "scalar c1" and "scalar c2"
    by (simp_all add: w2)
  ultimately have c: "c1 = c2"
    by (simp only: utf8_first [OF _ 1(1)] utf8_first [OF _ 2(1)])
  with 1(1) 2(1) have "x1 = x2" by simp
  with 1(3) 2(3) have "r1 = r2" by simp
  with Cons.IH [of cs2 r1] Cons.prems(1,2) 1(2) 2(2) have "cs1 = cs2"
    by (simp add: w2)
  with c show ?case by (simp add: w2)
qed

text \<open>An ASCII byte of the encoding is a code point of the string.\<close>

lemma fsencode_ascii_byte:
  "fsencode w = Some b \<Longrightarrow> a \<in> set b \<Longrightarrow> of_char a < (128::nat) \<Longrightarrow> of_char a \<in> set w"
proof (induction w arbitrary: b)
  case Nil
  then show ?case by simp
next
  case (Cons c cs)
  from Cons.prems(1) obtain x rest where *: "utf8_surrogateescape c = Some x"
    "fsencode cs = Some rest" "b = map char_of x @ rest"
    by (rule fsencode_Cons)
  show ?case
  proof (cases "a \<in> set rest")
    case True
    from Cons.IH [OF *(2) True Cons.prems(3)] show ?thesis by simp
  next
    case False
    with Cons.prems(2) *(3) obtain n where n: "n \<in> set x" "a = char_of n"
      by auto
    with utf8_bytes(2) [OF *(1)] have a: "of_char a = n" by simp
    with Cons.prems(3) n(1) utf8_bytes(4) [OF *(1)] have "c < 128"
      by (meson not_le)
    with utf8_bytes(3) [OF *(1)] n(1) a show ?thesis by simp
  qed
qed

lemma fsencode_append:
  "fsencode xs = Some a \<Longrightarrow> fsencode ys = Some b \<Longrightarrow> fsencode (xs @ ys) = Some (a @ b)"
  by (induction xs arbitrary: a) (auto split: option.splits)

lemma fsencode_code_points:
  "\<forall>a \<in> set s. of_char a < (128::nat) \<Longrightarrow> fsencode (code_points s) = Some s"
  by (induction s) (simp_all add: code_points_def utf8_surrogateescape_def)

lemma catalog_ascii:
  "v \<in> set variant_names \<Longrightarrow> \<forall>a \<in> set v. of_char a < (128::nat)"
  by (auto simp add: variant_names_def VARIANTS_def)

lemma no_slash_byte:
  assumes "47 \<notin> set w" and "fsencode w = Some b"
  shows "CHR ''/'' \<notin> set b"
proof
  assume "CHR ''/'' \<in> set b"
  from fsencode_ascii_byte [OF assms(2) this] assms(1) show False by simp
qed

lemma hd_not_47: "47 \<notin> set w \<Longrightarrow> \<not> (w \<noteq> [] \<and> hd w = (47::nat))"
  by (cases w) auto

text \<open>
  For a workflow id without a slash, the paths Python computes are encoded to the paths of
  the handler model at the encoded id.
\<close>

lemma fsencode_output_file_path:
  assumes "47 \<notin> set w" and "fsencode w = Some b" and "v \<in> set variant_names"
  shows "fsencode (py_output_file_path w v) = Some (output_file_path b v)"
proof -
  let ?name = "w @ code_points ''_'' @ code_points v @ code_points ''.mp4''"
  have "hd ?name \<noteq> 47"
    using assms(1) by (cases w) (auto simp add: code_points_def)
  then have "py_output_file_path w v = code_points ''/tmp/downloads/'' @ w @ code_points (''_'' @ v @ ''.mp4'')"
    by (simp add: py_output_file_path_def py_os_path_join_def py_join2_def UPLOAD_FOLDER_def
        code_points_def)
  moreover have "fsencode (code_points ''/tmp/downloads/'') = Some ''/tmp/downloads/''"
    by (rule fsencode_code_points) simp
  moreover have "fsencode (code_points (''_'' @ v @ ''.mp4'')) = Some (''_'' @ v @ ''.mp4'')"
    using catalog_ascii [OF assms(3)] by (intro fsencode_code_points) auto
  ultimately have "fsencode (py_output_file_path w v) =
      Some (''/tmp/downloads/'' @ b @ ''_'' @ v @ ''.mp4'')"
    using assms(2) by (simp only: fsencode_append)
  then show ?thesis
    by (simp only: output_file_path_no_slash [OF no_slash_byte [OF assms(1,2)]])
qed

lemma fsencode_work_dir:
  assumes "47 \<notin> set w" and "w \<noteq> []" and "fsencode w = Some b" and "v \<in> set variant_names"
  shows "fsencode (py_work_dir w v) = Some (work_dir b v)"
proof -
  have v: "code_points v \<noteq> []" "hd (code_points v) \<noteq> 47"
    using assms(4) by (auto simp add: variant_names_def VARIANTS_def code_points_def)
  have "last w \<noteq> 47"
    using assms(1,2) last_in_set [of w] by metis
  then have "py_work_dir w v =
      code_points ''/tmp/n8n_video_processing/'' @ w @ code_points (''/'' @ v)"
    using hd_not_47 [OF assms(1)] assms(2) v
    by (simp add: py_work_dir_def py_os_path_join_def py_join2_def TEMP_FOLDER_def
        code_points_def)
  moreover have "fsencode (code_points ''/tmp/n8n_video_processing/'')
      = Some ''/tmp/n8n_video_processing/''"
    by (rule fsencode_code_points) simp
  moreover have "fsencode (code_points (''/'' @ v)) = Some (''/'' @ v)"
    using catalog_ascii [OF assms(4)] by (intro fsencode_code_points) auto
  ultimately have "fsencode (py_work_dir w v) =
      Some (''/tmp/n8n_video_processing/'' @ b @ ''/'' @ v)"
    using assms(3) by (simp only: fsencode_append)
  moreover have "b \<noteq> []"
    using fsencode_Nil_iff [OF assms(3)] assms(2) by simp
  then have "work_dir b v = ''/tmp/n8n_video_processing/'' @ b @ ''/'' @ v"
    by (rule work_dir_no_slash [OF no_slash_byte [OF assms(1,3)] _ assms(4)])
  ultimately show ?thesis
    by (simp only:)
qed


subsection \<open>Distinct jobs, distinct paths\<close>

text \<open>
  C4, as the code has it. Take catalog variant names and workflow ids that are well-formed
  Unicode strings (no surrogate code points) and contain no slash. Such an id has a
  file-system encoding, the output path the operating system receives is
  \<open>/tmp/downloads/{workflow_id}_{variant_name}.mp4\<close> in that encoding, and two jobs have
  the same output path (and name the same file) exactly when their tuples are equal; if
  moreover the workflow ids are neither empty nor \<open>.\<close>, the workspace is
  \<open>/tmp/n8n_video_processing/{workflow_id}/{variant_name}\<close>, and two jobs have the same
  workspace, or workspaces of which one is or contains the other, exactly when their tuples
  are equal.
\<close>

theorem job_paths_distinct:
  assumes "v1 \<in> set variant_names" and "v2 \<in> set variant_names"
    and "list_all scalar w1" and "list_all scalar w2"
    and "47 \<notin> set w1" and "47 \<notin> set w2"
  shows "\<exists>b1 b2. fsencode w1 = Some b1 \<and> fsencode w2 = Some b2 \<and>
    fsencode (py_output_file_path w1 v1) = Some (output_file_path b1 v1) \<and>
    fsencode (py_output_file_path w2 v2) = Some (output_file_path b2 v2) \<and>
    output_file_path b1 v1 = UPLOAD_FOLDER @ ''/'' @ b1 @ ''_'' @ v1 @ ''.mp4'' \<and>
    (output_file_path b1 v1 = output_file_path b2 v2) = (w1 = w2 \<and> v1 = v2) \<and>
    (resolve (output_file_path b1 v1) = resolve (output_file_path b2 v2)) = (w1 = w2 \<and> v1 = v2) \<and>
    (w1 \<noteq> [] \<and> w1 \<noteq> [46] \<and> w2 \<noteq> [] \<and> w2 \<noteq> [46] \<longrightarrow>
       fsencode (py_work_dir w1 v1) = Some (work_dir b1 v1) \<and>
       fsencode (py_work_dir w2 v2) = Some (work_dir b2 v2) \<and>
       work_dir b1 v1 = TEMP_FOLDER @ ''/'' @ b1 @ ''/'' @ v1 \<and>
       (work_dir b1 v1 = work_dir b2 v2) = (w1 = w2 \<and> v1 = v2) \<and>
       overlapping (work_dir b1 v1) (work_dir b2 v2) = (w1 = w2 \<and> v1 = v2))"
proof -
  from fsencode_scalars [OF assms(3)] obtain b1 where b1: "fsencode w1 = Some b1" ..
  from fsencode_scalars [OF assms(4)] obtain b2 where b2: "fsencode w2 = Some b2" ..
  have same: "(b1 = b2) = (w1 = w2)"
    using fsencode_inj [OF assms(3,4) b1] b1 b2 by auto
  have "code_points ''.'' = [46]"
    by (simp add: code_points_def)
  with fsencode_code_points [of "''.''"] have dot: "fsencode [46] = Some ''.''"
    by simp
  have "list_all scalar [46]"
    by (simp add: scalar_def)
  then have dots: "(b1 = ''.'') = (w1 = [46])" "(b2 = ''.'') = (w2 = [46])"
    using fsencode_inj [OF assms(3) _ b1] fsencode_inj [OF assms(4) _ b2] b1 b2 dot by auto
  note empty = fsencode_Nil_iff [OF b1] fsencode_Nil_iff [OF b2]
  note bytes = job_paths_distinct_bytes
    [OF assms(1,2) no_slash_byte [OF assms(5) b1] no_slash_byte [OF assms(6) b2]]
  have out: "fsencode (py_output_file_path w1 v1) = Some (output_file_path b1 v1)"
    "fsencode (py_output_file_path w2 v2) = Some (output_file_path b2 v2)"
    by (rule fsencode_output_file_path [OF assms(5) b1 assms(1)],
        rule fsencode_output_file_path [OF assms(6) b2 assms(2)])
  have work: "fsencode (py_work_dir w1 v1) = Some (work_dir b1 v1) \<and>
       fsencode (py_work_dir w2 v2) = Some (work_dir b2 v2) \<and>
       work_dir b1 v1 = TEMP_FOLDER @ ''/'' @ b1 @ ''/'' @ v1 \<and>
       (work_dir b1 v1 = work_dir b2 v2) = (w1 = w2 \<and> v1 = v2) \<and>
       overlapping (work_dir b1 v1) (work_dir b2 v2) = (w1 = w2 \<and> v1 = v2)"
    if ne: "w1 \<noteq> []" "w1 \<noteq> [46]" "w2 \<noteq> []" "w2 \<noteq> [46]"
  proof -
    from ne empty dots have "b1 \<noteq> [] \<and> b1 \<noteq> ''.'' \<and> b2 \<noteq> [] \<and> b2 \<noteq> ''.''"
      by simp
    with bytes have "work_dir b1 v1 = TEMP_FOLDER @ ''/'' @ b1 @ ''/'' @ v1 \<and>
       (work_dir b1 v1 = work_dir b2 v2) = (b1 = b2 \<and> v1 = v2) \<and>
       overlapping (work_dir b1 v1) (work_dir b2 v2) = (b1 = b2 \<and> v1 = v2)"
      by blast
    then show ?thesis
      using fsencode_work_dir [OF assms(5) ne(1) b1 assms(1)]
        fsencode_work_dir [OF assms(6) ne(3) b2 assms(2)]
      unfolding same by blast
  qed
  from bytes have "output_file_path b1 v1 = UPLOAD_FOLDER @ ''/'' @ b1 @ ''_'' @ v1 @ ''.mp4'' \<and>
    (output_file_path b1 v1 = output_file_path b2 v2) = (b1 = b2 \<and> v1 = v2) \<and>
    (resolve (output_file_path b1 v1) = resolve (output_file_path b2 v2)) = (b1 = b2 \<and> v1 = v2)"
    by blast
  with b1 b2 out work show ?thesis
    unfolding same by blast
qed

theorem job_paths_distinct_witness:
  "list_all scalar [97, 98, 99, 49, 50, 51] \<and>
   47 \<notin> set [97, 98, 99, 49, 50, 51 :: nat] \<and>
   fsencode [97, 98, 99, 49, 50, 51] = Some ''abc123'' \<and>
   fsencode (py_output_file_path [97, 98, 99, 49, 50, 51] ''pablo'') =
     Some ''/tmp/downloads/abc123_pablo.mp4'' \<and>
   fsencode (py_work_dir [97, 98, 99, 49, 50, 51] ''pablo'') =
     Some ''/tmp/n8n_video_processing/abc123/pablo'' \<and>
   output_file_path ''abc123'' ''pablo'' \<noteq> output_file_path ''abc123'' ''josh'' \<and>
   work_dir ''abc123'' ''pablo'' \<noteq> work_dir ''abc123'' ''josh'' \<and>
   \<not> overlapping (work_dir ''abc123'' ''pablo'') (work_dir ''abc123'' ''josh'')"
proof -
  define w :: "nat list" where "w = [97, 98, 99, 49, 50, 51]"
  define p j where "p = ''pablo''" and "j = ''josh''"
  define b where "b = ''abc123''"
  have hyps: "p \<in> set variant_names" "j \<in> set variant_names"
    "list_all scalar w" "47 \<notin> set w" "w \<noteq> []" "w \<noteq> [46]" "p \<noteq> j"
    by (simp_all add: variant_names_def VARIANTS_def scalar_def w_def p_def j_def)
  have "code_points ''abc123'' = w"
    by (simp add: code_points_def w_def)
  with fsencode_code_points [of "''abc123''"] have enc: "fsencode w = Some b"
    by (simp add: b_def)
  from job_paths_distinct [OF hyps(1,2,3,3,4,4)] obtain b1 b2 where *:
    "fsencode w = Some b1" "fsencode w = Some b2"
    "fsencode (py_output_file_path w p) = Some (output_file_path b1 p)"
    "(output_file_path b1 p = output_file_path b2 j) = (w = w \<and> p = j)"
    "w \<noteq> [] \<and> w \<noteq> [46] \<and> w \<noteq> [] \<and> w \<noteq> [46] \<longrightarrow>
       fsencode (py_work_dir w p) = Some (work_dir b1 p) \<and>
       (work_dir b1 p = work_dir b2 j) = (w = w \<and> p = j) \<and>
       overlapping (work_dir b1 p) (work_dir b2 j) = (w = w \<and> p = j)"
    by blast
  from *(1,2) enc have b: "b1 = b" "b2 = b"
    by simp_all
  from * hyps(5,6,7) have paths:
    "fsencode (py_output_file_path w p) = Some (output_file_path b p)"
    "fsencode (py_work_dir w p) = Some (work_dir b p)"
    "output_file_path b p \<noteq> output_file_path b j"
    "work_dir b p \<noteq> work_dir b j"
    "\<not> overlapping (work_dir b p) (work_dir b j)"
    unfolding b by simp_all
  from hyps(3,4) enc paths show ?thesis
    unfolding w_def p_def j_def b_def unfolding example_paths
    by (intro conjI)
qed

text \<open>
  C4, as the claim states it, fails for workflow ids that are arbitrary strings, because of
  how \<open>os.path.join\<close> reads them: a workflow id that starts with a slash replaces the
  folder, so two distinct tuples give one output path; a trailing slash is absorbed, so two
  distinct tuples give one workspace; and with a slash inside, an empty or a \<open>.\<close>
  workflow id, the workspace of one job contains the workspace of another. And two ids
  without any slash can differ as strings and still have one file-system encoding: the
  letter U+00E9 and the pair of lone surrogates U+DCC3 U+DCA9 (which a JSON body can carry)
  are both encoded as the bytes C3 A9, so the two jobs share one workspace and one
  artifact.
\<close>

theorem job_paths_collide:
  "''pablo'' \<in> set variant_names \<and> ''josh'' \<in> set variant_names \<and>
   (''/tmp/downloads/x'', ''pablo'') \<noteq> (''x'', ''pablo'') \<and>
   output_file_path ''/tmp/downloads/x'' ''pablo'' = output_file_path ''x'' ''pablo'' \<and>
   (''a/'', ''pablo'') \<noteq> (''a'', ''pablo'') \<and>
   work_dir ''a/'' ''pablo'' = work_dir ''a'' ''pablo'' \<and>
   (''a'', ''pablo'') \<noteq> (''a/pablo'', ''josh'') \<and>
   work_dir ''a'' ''pablo'' = ''/tmp/n8n_video_processing/a/pablo'' \<and>
   work_dir ''a/pablo'' ''josh'' = ''/tmp/n8n_video_processing/a/pablo/josh'' \<and>
   overlapping (work_dir ''a'' ''pablo'') (work_dir ''a/pablo'' ''josh'') \<and>
   overlapping (work_dir '''' ''pablo'') (work_dir ''pablo'' ''josh'') \<and>
   overlapping (work_dir ''.'' ''pablo'') (work_dir ''pablo'' ''josh'') \<and>
   [233] \<noteq> [56515, 56489 :: nat] \<and>
   47 \<notin> set [233 :: nat] \<and> 47 \<notin> set [56515, 56489 :: nat] \<and>
   fsencode (py_work_dir [233] ''pablo'') \<noteq> None \<and>
   fsencode (py_work_dir [233] ''pablo'') = fsencode (py_work_dir [56515, 56489] ''pablo'') \<and>
   fsencode (py_output_file_path [233] ''pablo'') \<noteq> None \<and>
   fsencode (py_output_file_path [233] ''pablo'') =
     fsencode (py_output_file_path [56515, 56489] ''pablo'')"
  by (simp add: path_defs variant_names_def VARIANTS_def overlapping_def resolve_def
      norm_step_def py_work_dir_def py_output_file_path_def py_os_path_join_def py_join2_def
      code_points_def utf8_surrogateescape_def)


end
